theory Spec2Isabelle
  imports Main "HOL-Library.Word"
begin

section \<open>Tensor metadata\<close>

text \<open>
  The two memory layouts and the element type tags the sources name
  (\<^verbatim>\<open>Tformat::NCHW\<close>, \<^verbatim>\<open>Tdatatype::FP32\<close>, \<^verbatim>\<open>FP16\<close>, \<^verbatim>\<open>QINT4\<close>,
  \<^verbatim>\<open>QINT8\<close>).
\<close>

datatype Tformat = NCHW | NHWC

datatype Tdatatype = QINT4 | QINT8 | FP16 | FP32

text \<open>
  The weight initializer enumeration is declared outside the sources at hand; only
  \<^verbatim>\<open>Tensor::Initializer::NONE\<close> is named there.
\<close>

datatype Initializer = Initializer_NONE | Initializer_named string

text \<open>
  \<^verbatim>\<open>TensorDim\<close>: the four extents, the layout and element type
  (\<^verbatim>\<open>TensorType\<close>) and the effective and dynamic dimension flags.
\<close>

record TensorDim =
  batch :: nat
  channel :: nat
  height :: nat
  width :: nat
  format :: Tformat
  data_type :: Tdatatype
  eff_dim_flag :: nat
  dyn_dim_flag :: nat

text \<open>
  Every \<^verbatim>\<open>throw\<close> of the sources raises \<^verbatim>\<open>std::invalid_argument\<close> with a
  message. Dereferencing the null pointer a failed \<^verbatim>\<open>dynamic_cast\<close> returns is
  kept as a result of its own.
\<close>

datatype error = invalid_argument string | null_dereference

section \<open>TensorV2: the type-erased tensor (tensor\_v2.cpp)\<close>

text \<open>
  A backend object carries the tensor information of \<^verbatim>\<open>TensorBase\<close> and its
  elements; \<^verbatim>\<open>itensor\<close> points to a \<^verbatim>\<open>FloatTensor\<close> or to a
  \<^verbatim>\<open>HalfTensor\<close>. The element types \<open>'f\<close> and \<open>'h\<close> stay abstract.
\<close>

record 'e TensorBase =
  dim :: TensorDim
  tname :: string
  tdata :: "'e list"

datatype ('f, 'h) ITensor = FloatTensor "'f TensorBase" | HalfTensor "'h TensorBase"

record ('f, 'h) TensorV2 =
  itensor :: "('f, 'h) ITensor"

text \<open>
  The backend classes (float\_tensor.h, half\_tensor.h) are not among the sources:
  their constructors and their element comparison are parameters of the model.
\<close>

record ('f, 'h) backend =
  new_FloatTensor :: "TensorDim \<Rightarrow> bool \<Rightarrow> Initializer \<Rightarrow> string \<Rightarrow> 'f TensorBase"
  new_FloatTensor_named :: "string \<Rightarrow> Tformat \<Rightarrow> 'f TensorBase"
  new_HalfTensor :: "TensorDim \<Rightarrow> bool \<Rightarrow> Initializer \<Rightarrow> string \<Rightarrow> 'h TensorBase"
  new_HalfTensor_named :: "string \<Rightarrow> Tformat \<Rightarrow> 'h TensorBase"
  new_FloatTensor_buf :: "TensorDim \<Rightarrow> 8 word list \<Rightarrow> 'f TensorBase"
  new_HalfTensor_buf :: "TensorDim \<Rightarrow> 8 word list \<Rightarrow> 'h TensorBase"
  FloatTensor_eq :: "'f TensorBase \<Rightarrow> 'f TensorBase \<Rightarrow> bool"
  HalfTensor_eq :: "'h TensorBase \<Rightarrow> 'h TensorBase \<Rightarrow> bool"

definition msg_fp16_disabled :: string where
  "msg_fp16_disabled = ''Error: enable-fp16 is not enabled''"

definition msg_unsupported_dtype :: string where
  "msg_unsupported_dtype =
     ''Error: TensorV2 cannot be constructed because the given d_type is not '' @
     ''compatible with itensor. The supported d_types are: FP32, FP16 '' @
     ''(if built with ENABLE_FP16).''"

definition msg_fp16_unusable :: string where
  "msg_fp16_unusable =
     ''Error: HalfTensor cannot be created or used when FP16 is not enabled. '' @
     ''Please check if the tensor data type is set properly.''"

definition msg_axis_range :: string where
  "msg_axis_range = ''Error: Input value must be within the range of 0 to 3.''"

text \<open>
  \<^verbatim>\<open>TensorV2(std::string name_, Tformat fm, Tdatatype d_type)\<close>; the first argument
  of the model is the build switch \<^verbatim>\<open>ENABLE_FP16\<close>.
\<close>

definition TensorV2_named ::
  "bool \<Rightarrow> ('f, 'h) backend \<Rightarrow> string \<Rightarrow> Tformat \<Rightarrow> Tdatatype \<Rightarrow> error + ('f, 'h) TensorV2" where
  "TensorV2_named ENABLE_FP16 be nm fm d_type =
     (if d_type = FP32 then Inr \<lparr>itensor = FloatTensor (new_FloatTensor_named be nm fm)\<rparr>
      else if d_type = FP16 then
        (if ENABLE_FP16 then Inr \<lparr>itensor = HalfTensor (new_HalfTensor_named be nm fm)\<rparr>
         else Inl (invalid_argument msg_fp16_disabled))
      else Inl (invalid_argument msg_unsupported_dtype))"

text \<open>
  \<^verbatim>\<open>TensorV2(const TensorDim &d, bool alloc_now, Initializer init, std::string name)\<close>.
\<close>

definition TensorV2_new ::
  "bool \<Rightarrow> ('f, 'h) backend \<Rightarrow> TensorDim \<Rightarrow> bool \<Rightarrow> Initializer \<Rightarrow> string
     \<Rightarrow> error + ('f, 'h) TensorV2" where
  "TensorV2_new ENABLE_FP16 be d alloc_now init name =
     (if data_type d = FP32 then Inr \<lparr>itensor = FloatTensor (new_FloatTensor be d alloc_now init name)\<rparr>
      else if data_type d = FP16 then
        (if ENABLE_FP16 then Inr \<lparr>itensor = HalfTensor (new_HalfTensor be d alloc_now init name)\<rparr>
         else Inl (invalid_argument msg_fp16_disabled))
      else Inl (invalid_argument msg_unsupported_dtype))"

text \<open>
  \<^verbatim>\<open>TensorV2(const TensorDim &d, const void *buf)\<close>; the buffer is a sequence of bytes.
\<close>

definition TensorV2_buf ::
  "bool \<Rightarrow> ('f, 'h) backend \<Rightarrow> TensorDim \<Rightarrow> 8 word list \<Rightarrow> error + ('f, 'h) TensorV2" where
  "TensorV2_buf ENABLE_FP16 be d buf =
     (if data_type d = FP32 then Inr \<lparr>itensor = FloatTensor (new_FloatTensor_buf be d buf)\<rparr>
      else if data_type d = FP16 then
        (if ENABLE_FP16 then Inr \<lparr>itensor = HalfTensor (new_HalfTensor_buf be d buf)\<rparr>
         else Inl (invalid_argument msg_fp16_disabled))
      else Inl (invalid_argument msg_unsupported_dtype))"

text \<open>
  The getters forward to the backend object, which reads its \<^verbatim>\<open>TensorDim\<close>.
\<close>

fun getDim :: "('f, 'h) ITensor \<Rightarrow> TensorDim" where
  "getDim (FloatTensor b) = dim b"
| "getDim (HalfTensor b) = dim b"

definition getFormat :: "('f, 'h) TensorV2 \<Rightarrow> Tformat" where
  "getFormat t = format (getDim (itensor t))"

definition getDataType :: "('f, 'h) TensorV2 \<Rightarrow> Tdatatype" where
  "getDataType t = data_type (getDim (itensor t))"

text \<open>
  \<^verbatim>\<open>dynamic_cast<FloatTensor *>\<close> and \<^verbatim>\<open>dynamic_cast<HalfTensor *>\<close>: the object
  when it is of that class, the null pointer otherwise.
\<close>

fun cast_FloatTensor :: "('f, 'h) ITensor \<Rightarrow> 'f TensorBase option" where
  "cast_FloatTensor (FloatTensor b) = Some b"
| "cast_FloatTensor (HalfTensor b) = None"

fun cast_HalfTensor :: "('f, 'h) ITensor \<Rightarrow> 'h TensorBase option" where
  "cast_HalfTensor (HalfTensor b) = Some b"
| "cast_HalfTensor (FloatTensor b) = None"

text \<open>
  Modelled from the spec: \<^verbatim>\<open>TensorBase::operator==\<close> (tensor\_base.h is not among
  the sources) "compares shape/format/type metadata": the four extents, the layout and
  the element type of the two objects.
\<close>

definition TensorBase_eq :: "('f, 'h) ITensor \<Rightarrow> ('f, 'h) ITensor \<Rightarrow> bool" where
  "TensorBase_eq a b =
     (batch (getDim a) = batch (getDim b) \<and> channel (getDim a) = channel (getDim b) \<and>
      height (getDim a) = height (getDim b) \<and> width (getDim a) = width (getDim b) \<and>
      format (getDim a) = format (getDim b) \<and> data_type (getDim a) = data_type (getDim b))"

text \<open>
  \<^verbatim>\<open>TensorV2::operator==\<close>: the tensor information first, then the elements through
  the backend of the left operand's data type.
\<close>

definition TensorV2_eq ::
  "bool \<Rightarrow> ('f, 'h) backend \<Rightarrow> ('f, 'h) TensorV2 \<Rightarrow> ('f, 'h) TensorV2 \<Rightarrow> error + bool" where
  "TensorV2_eq ENABLE_FP16 be lhs rhs =
     (if TensorBase_eq (itensor lhs) (itensor rhs) then
        (if getDataType lhs = FP32 then
           (case cast_FloatTensor (itensor lhs) of
              None \<Rightarrow> Inl null_dereference
            | Some a \<Rightarrow>
               (case cast_FloatTensor (itensor rhs) of
                  None \<Rightarrow> Inl null_dereference
                | Some b \<Rightarrow> Inr (FloatTensor_eq be a b)))
         else if getDataType lhs = FP16 then
           (if ENABLE_FP16 then
              (case cast_HalfTensor (itensor lhs) of
                 None \<Rightarrow> Inl null_dereference
               | Some a \<Rightarrow>
                  (case cast_HalfTensor (itensor rhs) of
                     None \<Rightarrow> Inl null_dereference
                   | Some b \<Rightarrow> Inr (HalfTensor_eq be a b)))
            else Inl (invalid_argument msg_fp16_unusable))
         else Inr False)
      else Inr False)"

text \<open>
  \<^verbatim>\<open>TensorV2::checkContinuous(unsigned int np1, unsigned int np2)\<close>. The arguments
  are 32-bit unsigned, so the comparisons with 0 never hold; the table is read at
  indices the guard has bounded by 3.
\<close>

definition continuous_order_nhwc :: "32 word list" where
  "continuous_order_nhwc = [0, 3, 1, 2]"

definition checkContinuous :: "('f, 'h) TensorV2 \<Rightarrow> 32 word \<Rightarrow> 32 word \<Rightarrow> error + bool" where
  "checkContinuous t np1 np2 =
     (if np1 < 0 \<or> np1 > 3 \<or> np2 < 0 \<or> np2 > 3 then Inl (invalid_argument msg_axis_range)
      else if getFormat t = NCHW then
        (if np1 + 1 = np2 then Inr True else Inr False)
      else
        (if continuous_order_nhwc ! unat np2 = continuous_order_nhwc ! unat np1 + 1
         then Inr True else Inr False))"


section \<open>The fully connected layer (fc\_layer.cpp)\<close>

subsection \<open>Tensors and their numeric primitives\<close>

text \<open>
  The layer works on the class \<^verbatim>\<open>Tensor\<close> (tensor.h, not among the sources): a
  shape and the elements. The element type \<open>'a\<close> stays abstract.
\<close>

type_synonym 'a Tensor = "'a TensorBase"

text \<open>
  \<^verbatim>\<open>TensorDim(b, c, h, w, TensorType(format, data type), eff_dim_flag)\<close>; the dynamic
  dimension flag defaults to \<^verbatim>\<open>0b0000\<close>.
\<close>

definition TensorDim_new ::
  "nat \<Rightarrow> nat \<Rightarrow> nat \<Rightarrow> nat \<Rightarrow> Tformat \<Rightarrow> Tdatatype \<Rightarrow> nat \<Rightarrow> TensorDim" where
  "TensorDim_new b c h w fm dt eff =
     \<lparr>batch = b, channel = c, height = h, width = w, format = fm, data_type = dt,
      eff_dim_flag = eff, dyn_dim_flag = 0\<rparr>"

text \<open>
  The numeric kernels of \<^verbatim>\<open>Tensor\<close> are parameters of the model: what a call
  stores in its output tensor, as a function of the tensors it reads. Nothing is
  assumed about their arithmetic.
  \<^item> \<open>op_dot a b\<close>: \<^verbatim>\<open>a.dot(b, out, false, false)\<close>;
  \<^item> \<open>op_add a b\<close>: \<^verbatim>\<open>a.add(b, out)\<close> and \<^verbatim>\<open>a.add_i(b)\<close>;
  \<^item> \<open>op_sum axes a\<close>: \<^verbatim>\<open>a.sum(axes)\<close>;
  \<^item> \<open>op_dequantize q d axis\<close>: \<^verbatim>\<open>q.dequantize(out, axis)\<close> for an output of
    dimension \<open>d\<close>;
  \<^item> \<open>op_dot_deriv_wrt_1 m d\<close>, \<open>op_dot_deriv_wrt_2 x d\<close> and
    \<open>op_dot_batched_deriv_wrt_1 m d\<close>: the freshly computed derivative of the three
    derivative primitives.
\<close>

record 'a tensor_ops =
  op_dot :: "'a Tensor \<Rightarrow> 'a Tensor \<Rightarrow> 'a Tensor"
  op_add :: "'a Tensor \<Rightarrow> 'a Tensor \<Rightarrow> 'a Tensor"
  op_sum :: "nat list \<Rightarrow> 'a Tensor \<Rightarrow> 'a Tensor"
  op_dequantize :: "'a Tensor \<Rightarrow> TensorDim \<Rightarrow> nat \<Rightarrow> 'a Tensor"
  op_dot_deriv_wrt_1 :: "'a Tensor \<Rightarrow> 'a Tensor \<Rightarrow> 'a Tensor"
  op_dot_deriv_wrt_2 :: "'a Tensor \<Rightarrow> 'a Tensor \<Rightarrow> 'a Tensor"
  op_dot_batched_deriv_wrt_1 :: "'a Tensor \<Rightarrow> 'a Tensor \<Rightarrow> 'a Tensor"

text \<open>
  Modelled from the spec: the last argument \<^verbatim>\<open>beta\<close> of the derivative primitives
  (tensor.cpp is not among the sources) is "an overwrite/accumulate toggle": without
  it the output is overwritten with the fresh derivative, with it "subsequent accesses
  accumulate by addition" onto the stored output.
\<close>

definition dot_deriv_wrt_2 ::
  "'a tensor_ops \<Rightarrow> 'a Tensor \<Rightarrow> 'a Tensor \<Rightarrow> 'a Tensor \<Rightarrow> bool \<Rightarrow> 'a Tensor" where
  "dot_deriv_wrt_2 ops this m_deriv output_deriv beta =
     (if beta then op_add ops m_deriv (op_dot_deriv_wrt_2 ops this output_deriv)
      else op_dot_deriv_wrt_2 ops this output_deriv)"

text \<open>
  Modelled from the spec: \<^verbatim>\<open>Tensor::dot_batched_deriv_wrt_1\<close> (tensor.cpp is not among
  the sources), with the same overwrite/accumulate toggle; the tensor it is called on
  is the output.
\<close>

definition dot_batched_deriv_wrt_1 ::
  "'a tensor_ops \<Rightarrow> 'a Tensor \<Rightarrow> 'a Tensor \<Rightarrow> 'a Tensor \<Rightarrow> bool \<Rightarrow> 'a Tensor" where
  "dot_batched_deriv_wrt_1 ops this m output_deriv beta =
     (if beta then op_add ops this (op_dot_batched_deriv_wrt_1 ops m output_deriv)
      else op_dot_batched_deriv_wrt_1 ops m output_deriv)"

text \<open>
  Modelled from the spec: \<^verbatim>\<open>Tensor::getSharedDataTensor(dim, offset, reset_stride)\<close>
  "returns a new Tensor aliasing the same storage starting at \<open>offset\<close>, reshaped to
  \<open>dim\<close>". The view reads the elements of its parent from the offset on;
  \<open>put_shared\<close> is a store through the view, which lands in the parent.
\<close>

definition dim_size :: "TensorDim \<Rightarrow> nat" where
  "dim_size d = batch d * channel d * height d * width d"

definition getSharedDataTensor :: "'a Tensor \<Rightarrow> TensorDim \<Rightarrow> nat \<Rightarrow> bool \<Rightarrow> 'a Tensor" where
  "getSharedDataTensor t d offset reset_stride =
     \<lparr>dim = d, tname = tname t, tdata = take (dim_size d) (drop offset (tdata t))\<rparr>"

text \<open>
  Modelled from the spec: a store of the tensor \<open>v\<close> through a view of dimension \<open>d\<close>
  at \<open>offset\<close> replaces that part of the storage of the parent ("aliasing the same
  storage"); tensor.cpp is not among the sources.
\<close>

definition put_shared :: "'a Tensor \<Rightarrow> TensorDim \<Rightarrow> nat \<Rightarrow> 'a Tensor \<Rightarrow> 'a Tensor" where
  "put_shared t d offset v =
     t\<lparr>tdata := take offset (tdata t) @ take (dim_size d) (tdata v) @
                 drop (offset + dim_size d) (tdata t)\<rparr>"

subsection \<open>The run context\<close>

text \<open>
  Modelled from the spec: the execution context (layer\_context.h is not among the
  sources) "supplies weight/tensor requests" and "returns opaque indices". At run time
  it is a store: a weight (variable, gradient, output axis) for each weight index, a
  tensor with its gradient for each tensor index, the inputs and outputs with the
  incoming and outgoing derivatives, and the first-access flag of each gradient. A
  lookup outside the requested indices is undefined in the program; the store is total.
\<close>

record 'a Var_Grad =
  var :: "'a Tensor"
  grad :: "'a Tensor"

record 'a Weight = "'a Var_Grad" +
  output_axis :: nat

record 'a RunLayerContext =
  weights :: "nat \<Rightarrow> 'a Weight"
  tensors :: "nat \<Rightarrow> 'a Var_Grad"
  inputs :: "nat \<Rightarrow> 'a Tensor"
  outputs :: "nat \<Rightarrow> 'a Tensor"
  incoming_derivatives :: "nat \<Rightarrow> 'a Tensor"
  outgoing_derivatives :: "nat \<Rightarrow> 'a Tensor"
  gradient_first_access :: "nat \<Rightarrow> bool"

text \<open>
  Modelled from the spec: the getters of the run context, as lookups in the store.
\<close>

definition getWeight :: "'a RunLayerContext \<Rightarrow> nat \<Rightarrow> 'a Tensor" where
  "getWeight c idx = var (weights c idx)"

definition getWeightGrad :: "'a RunLayerContext \<Rightarrow> nat \<Rightarrow> 'a Tensor" where
  "getWeightGrad c idx = grad (weights c idx)"

definition getTensor :: "'a RunLayerContext \<Rightarrow> nat \<Rightarrow> 'a Tensor" where
  "getTensor c idx = var (tensors c idx)"

definition getTensorGrad :: "'a RunLayerContext \<Rightarrow> nat \<Rightarrow> 'a Tensor" where
  "getTensorGrad c idx = grad (tensors c idx)"

definition isGradientFirstAccess :: "'a RunLayerContext \<Rightarrow> nat \<Rightarrow> bool" where
  "isGradientFirstAccess c idx = gradient_first_access c idx"

text \<open>Stores through the references the getters return.\<close>

definition setWeight :: "'a RunLayerContext \<Rightarrow> nat \<Rightarrow> 'a Tensor \<Rightarrow> 'a RunLayerContext" where
  "setWeight c idx v = c\<lparr>weights := (weights c)(idx := (weights c idx)\<lparr>var := v\<rparr>)\<rparr>"

definition setWeightGrad :: "'a RunLayerContext \<Rightarrow> nat \<Rightarrow> 'a Tensor \<Rightarrow> 'a RunLayerContext" where
  "setWeightGrad c idx v = c\<lparr>weights := (weights c)(idx := (weights c idx)\<lparr>grad := v\<rparr>)\<rparr>"

definition setTensor :: "'a RunLayerContext \<Rightarrow> nat \<Rightarrow> 'a Tensor \<Rightarrow> 'a RunLayerContext" where
  "setTensor c idx v = c\<lparr>tensors := (tensors c)(idx := (tensors c idx)\<lparr>var := v\<rparr>)\<rparr>"

definition setTensorGrad :: "'a RunLayerContext \<Rightarrow> nat \<Rightarrow> 'a Tensor \<Rightarrow> 'a RunLayerContext" where
  "setTensorGrad c idx v = c\<lparr>tensors := (tensors c)(idx := (tensors c idx)\<lparr>grad := v\<rparr>)\<rparr>"

definition setOutput :: "'a RunLayerContext \<Rightarrow> nat \<Rightarrow> 'a Tensor \<Rightarrow> 'a RunLayerContext" where
  "setOutput c idx v = c\<lparr>outputs := (outputs c)(idx := v)\<rparr>"

definition setOutgoingDerivative ::
  "'a RunLayerContext \<Rightarrow> nat \<Rightarrow> 'a Tensor \<Rightarrow> 'a RunLayerContext" where
  "setOutgoingDerivative c idx v = c\<lparr>outgoing_derivatives := (outgoing_derivatives c)(idx := v)\<rparr>"


subsection \<open>Layer properties and setup\<close>

text \<open>
  \<^verbatim>\<open>enum FCParams { weight, bias }\<close> and \<^verbatim>\<open>enum LORAParams { loraA, loraB, loraW }\<close>
  index the arrays \<^verbatim>\<open>weight_idx\<close> and \<^verbatim>\<open>lora_idx\<close>.
\<close>

datatype FCParams = weight | bias

datatype LORAParams = loraA | loraB | loraW

text \<open>
  The layer: the unit count, the LoRA rank and disable-bias properties (\<open>None\<close> is an
  empty property), the two initializers and the index arrays. The regularizer and decay
  properties are only handed on to the weight requests and are left out.
\<close>

record FullyConnectedLayer =
  Unit :: nat
  LoraRank :: "nat option"
  DisableBias :: "bool option"
  WeightInitializer :: Initializer
  BiasInitializer :: Initializer
  weight_idx :: "FCParams \<Rightarrow> nat"
  lora_idx :: "LORAParams \<Rightarrow> nat"

definition SINGLE_INOUT_IDX :: nat where
  "SINGLE_INOUT_IDX = 0"

text \<open>
  The constructor fills \<^verbatim>\<open>weight_idx\<close> with the largest \<^verbatim>\<open>unsigned\<close>; it leaves
  \<^verbatim>\<open>lora_idx\<close> as it finds it. The property values are those \<^verbatim>\<open>setProperty\<close>
  loads before \<^verbatim>\<open>finalize\<close>; the declaration of the property types
  (common\_properties.h) is not among the sources.
\<close>

definition FullyConnectedLayer_new ::
  "nat \<Rightarrow> nat option \<Rightarrow> bool option \<Rightarrow> Initializer \<Rightarrow> Initializer \<Rightarrow> (LORAParams \<Rightarrow> nat)
     \<Rightarrow> FullyConnectedLayer" where
  "FullyConnectedLayer_new u r db wi bi indeterminate =
     \<lparr>Unit = u, LoraRank = r, DisableBias = db, WeightInitializer = wi, BiasInitializer = bi,
      weight_idx = (\<lambda>_. 2 ^ 32 - 1), lora_idx = indeterminate\<rparr>"

text \<open>
  \<^verbatim>\<open>disable_bias.empty() || disable_bias.get() == false\<close>.
\<close>

definition bias_enabled :: "FullyConnectedLayer \<Rightarrow> bool" where
  "bias_enabled L = (case DisableBias L of None \<Rightarrow> True | Some b \<Rightarrow> b = False)"

datatype TensorLifespan = ITERATION_LIFESPAN | MAX_LIFESPAN

text \<open>
  Modelled from the spec: the setup context records the requests it receives "by
  shape+initializer+lifetime-tag and returns opaque indices": the index of a request is
  its position among the requests of its kind.
\<close>

record InitLayerContext =
  input_dimensions :: "TensorDim list"
  tensor_format :: Tformat
  activation_dtype :: Tdatatype
  weight_dtype :: Tdatatype
  output_dimensions :: "TensorDim list"
  weights_spec :: "(TensorDim \<times> Initializer \<times> string \<times> bool) list"
  tensors_spec :: "(TensorDim \<times> string \<times> Initializer \<times> bool \<times> TensorLifespan) list"

text \<open>
  Modelled from the spec: a weight request is appended to the requests and answered
  with its position; the regularizer, its constant and the decay are left out.
\<close>

definition requestWeight ::
  "InitLayerContext \<Rightarrow> TensorDim \<Rightarrow> Initializer \<Rightarrow> string \<Rightarrow> bool \<Rightarrow> nat \<times> InitLayerContext" where
  "requestWeight c d init nm trainable =
     (length (weights_spec c), c\<lparr>weights_spec := weights_spec c @ [(d, init, nm, trainable)]\<rparr>)"

text \<open>
  Modelled from the spec: a tensor request is appended to the tensor requests and
  answered with its position.
\<close>

definition requestTensor ::
  "InitLayerContext \<Rightarrow> TensorDim \<Rightarrow> string \<Rightarrow> Initializer \<Rightarrow> bool \<Rightarrow> TensorLifespan
     \<Rightarrow> nat \<times> InitLayerContext" where
  "requestTensor c d nm init trainable lifespan =
     (length (tensors_spec c),
      c\<lparr>tensors_spec := tensors_spec c @ [(d, nm, init, trainable, lifespan)]\<rparr>)"

text \<open>
  Modelled from the spec: the two flag setters store the flag in the input dimension of
  the given index.
\<close>

definition setEffDimFlagInputDimension :: "InitLayerContext \<Rightarrow> nat \<Rightarrow> nat \<Rightarrow> InitLayerContext" where
  "setEffDimFlagInputDimension c idx flag =
     c\<lparr>input_dimensions := (input_dimensions c)[idx := (input_dimensions c ! idx)\<lparr>eff_dim_flag := flag\<rparr>]\<rparr>"

definition setDynDimFlagInputDimension :: "InitLayerContext \<Rightarrow> nat \<Rightarrow> nat \<Rightarrow> InitLayerContext" where
  "setDynDimFlagInputDimension c idx flag =
     c\<lparr>input_dimensions := (input_dimensions c)[idx := (input_dimensions c ! idx)\<lparr>dyn_dim_flag := flag\<rparr>]\<rparr>"

definition msg_one_input :: string where
  "msg_one_input = ''Fully connected layer takes only one input''"

text \<open>
  The four dimensions \<^verbatim>\<open>finalize\<close> builds, as functions of its locals
  \<^verbatim>\<open>is_nchw\<close>, \<^verbatim>\<open>unit\<close>, \<^verbatim>\<open>lora_rank\<close>, \<^verbatim>\<open>in_dim\<close> and of the format and
  weight data type of the context.
\<close>

definition fc_bias_dim :: "bool \<Rightarrow> nat \<Rightarrow> Tformat \<Rightarrow> Tdatatype \<Rightarrow> TensorDim" where
  "fc_bias_dim is_nchw unit fm dt =
     TensorDim_new 1 (if is_nchw then 1 else unit) 1 (if is_nchw then unit else 1) fm dt
       (if is_nchw then 1 else 4)"

definition fc_weight_dim :: "bool \<Rightarrow> nat \<Rightarrow> TensorDim \<Rightarrow> Tformat \<Rightarrow> Tdatatype \<Rightarrow> TensorDim" where
  "fc_weight_dim is_nchw unit in_dim fm dt =
     TensorDim_new 1 (if is_nchw then 1 else unit) (if is_nchw then width in_dim else 1)
       (if is_nchw then unit else channel in_dim) fm dt (if is_nchw then 3 else 5)"

definition fc_loraA_dim :: "bool \<Rightarrow> nat \<Rightarrow> TensorDim \<Rightarrow> Tformat \<Rightarrow> Tdatatype \<Rightarrow> TensorDim" where
  "fc_loraA_dim is_nchw lora_rank in_dim fm dt =
     TensorDim_new 1 (if is_nchw then 1 else lora_rank) (if is_nchw then width in_dim else 1)
       (if is_nchw then lora_rank else channel in_dim) fm dt (if is_nchw then 3 else 5)"

definition fc_loraB_dim ::
  "bool \<Rightarrow> nat \<Rightarrow> nat \<Rightarrow> TensorDim \<Rightarrow> Tformat \<Rightarrow> Tdatatype \<Rightarrow> TensorDim" where
  "fc_loraB_dim is_nchw unit lora_rank in_dim fm dt =
     TensorDim_new 1 (if is_nchw then 1 else unit) (if is_nchw then lora_rank else 1)
       (if is_nchw then unit else channel in_dim) fm dt (if is_nchw then 3 else 5)"

text \<open>
  \<^verbatim>\<open>FullyConnectedLayer::finalize\<close>. The result is the layer with its index arrays
  assigned and the context with the output dimension and the requests.
\<close>

definition finalize ::
  "FullyConnectedLayer \<Rightarrow> InitLayerContext \<Rightarrow> error + (FullyConnectedLayer \<times> InitLayerContext)" where
  "finalize L c0 =
     (let unit = Unit L;
          lora_rank = (case LoraRank L of None \<Rightarrow> 0 | Some r \<Rightarrow> r)
      in if length (input_dimensions c0) \<noteq> 1 then Inl (invalid_argument msg_one_input)
         else
          (let c1 = setEffDimFlagInputDimension c0 0 9;
               c2 = setDynDimFlagInputDimension c1 0 8;
               is_nchw = (tensor_format c2 = NCHW);
               in_dim = input_dimensions c2 ! 0;
               out_dim = (if is_nchw then in_dim\<lparr>width := unit\<rparr> else in_dim\<lparr>channel := unit\<rparr>)
                           \<lparr>format := tensor_format c2, data_type := activation_dtype c2\<rparr>;
               c3 = c2\<lparr>output_dimensions := [out_dim]\<rparr>;
               bias_dim = fc_bias_dim is_nchw unit (tensor_format c3) (weight_dtype c3);
               weight_dim = fc_weight_dim is_nchw unit in_dim (tensor_format c3) (weight_dtype c3);
               rw = requestWeight c3 weight_dim (WeightInitializer L) ''weight'' True;
               L1 = L\<lparr>weight_idx := (weight_idx L)(weight := fst rw)\<rparr>;
               c4 = snd rw;
               rb = requestWeight c4 bias_dim (BiasInitializer L) ''bias'' True;
               L2 = (if bias_enabled L then L1\<lparr>weight_idx := (weight_idx L1)(bias := fst rb)\<rparr> else L1);
               c5 = (if bias_enabled L then snd rb else c4)
           in if lora_rank \<noteq> 0 then
                (let loraA_dim = fc_loraA_dim is_nchw lora_rank in_dim (tensor_format c5) (weight_dtype c5);
                     loraB_dim = fc_loraB_dim is_nchw unit lora_rank in_dim (tensor_format c5) (weight_dtype c5);
                     ra = requestWeight c5 loraA_dim (WeightInitializer L) ''loraA'' True;
                     rb' = requestWeight (snd ra) loraB_dim (WeightInitializer L) ''loraB'' True;
                     rl = requestTensor (snd rb') weight_dim ''weight_lora'' Initializer_NONE True
                            ITERATION_LIFESPAN
                 in Inr (L2\<lparr>lora_idx := (lora_idx L2)(loraA := fst ra, loraB := fst rb', loraW := fst rl)\<rparr>,
                         snd rl))
              else Inr (L2, c5)))"

subsection \<open>Forward pass\<close>

text \<open>
  The parameter \<^verbatim>\<open>Tensor &weight\<close> of \<^verbatim>\<open>forwarding_lora\<close> is bound either to the
  weight stored in the context or to the local tensor \<^verbatim>\<open>weight_\<close> of the caller.
\<close>

datatype 'a weight_ref = Stored nat | Temp "'a Tensor"

text \<open>
  \<^verbatim>\<open>FullyConnectedLayer::forwarding_lora\<close>: the context after the call, and the tensor
  the reference is bound to after the call.
\<close>

definition forwarding_lora ::
  "'a tensor_ops \<Rightarrow> FullyConnectedLayer \<Rightarrow> 'a RunLayerContext \<Rightarrow> 'a weight_ref
     \<Rightarrow> 'a RunLayerContext \<times> 'a Tensor" where
  "forwarding_lora ops L c r =
     (let A = getWeight c (lora_idx L loraA);
          B = getWeight c (lora_idx L loraB);
          c1 = setTensor c (lora_idx L loraW) (op_dot ops A B);
          weight_lora = getTensor c1 (lora_idx L loraW)
      in case r of
           Stored idx \<Rightarrow>
             (let c2 = setWeight c1 idx (op_add ops (getWeight c1 idx) weight_lora)
              in (c2, getWeight c2 idx))
         | Temp t \<Rightarrow> (c1, op_add ops t weight_lora))"

text \<open>
  \<^verbatim>\<open>FullyConnectedLayer::forwarding\<close>. The local \<^verbatim>\<open>weight_\<close> takes the extents and
  format of the stored weight and the data type of the input.
\<close>

definition forwarding ::
  "'a tensor_ops \<Rightarrow> FullyConnectedLayer \<Rightarrow> 'a RunLayerContext \<Rightarrow> bool \<Rightarrow> 'a RunLayerContext" where
  "forwarding ops L c training =
     (let iw = weight_idx L weight;
          W = getWeight c iw;
          input' = inputs c SINGLE_INOUT_IDX;
          c2 =
            (if data_type (dim W) = QINT4 \<or> data_type (dim W) = QINT8 then
               (let dtype = data_type (dim input');
                    weight_dim' = \<lparr>batch = batch (dim W), channel = channel (dim W),
                                   height = height (dim W), width = width (dim W),
                                   format = format (dim W), data_type = dtype,
                                   eff_dim_flag = 15, dyn_dim_flag = 0\<rparr>;
                    axis = output_axis (weights c iw);
                    weight' = op_dequantize ops W weight_dim' axis;
                    st = (if LoraRank L \<noteq> None then forwarding_lora ops L c (Temp weight')
                          else (c, weight'))
                in setOutput (fst st) SINGLE_INOUT_IDX
                     (op_dot ops (inputs (fst st) SINGLE_INOUT_IDX) (snd st)))
             else
               (let c1 = (if LoraRank L \<noteq> None then fst (forwarding_lora ops L c (Stored iw))
                          else c)
                in setOutput c1 SINGLE_INOUT_IDX
                     (op_dot ops (inputs c1 SINGLE_INOUT_IDX) (getWeight c1 iw))))
      in if bias_enabled L then
           setOutput c2 SINGLE_INOUT_IDX
             (op_add ops (outputs c2 SINGLE_INOUT_IDX) (getWeight c2 (weight_idx L bias)))
         else c2)"

definition msg_step_size :: string where
  "msg_step_size = ''incremental step size is not 1''"

text \<open>
  \<^verbatim>\<open>FullyConnectedLayer::incremental_forwarding\<close>; \<^verbatim>\<open>from\<close> and \<^verbatim>\<open>to\<close> are
  \<^verbatim>\<open>unsigned int\<close>, so \<^verbatim>\<open>to - from\<close> wraps modulo \<open>2 ^ 32\<close>. The two step tensors
  are views at offset 0 of the input and of the output.
\<close>

definition incremental_forwarding ::
  "'a tensor_ops \<Rightarrow> FullyConnectedLayer \<Rightarrow> 'a RunLayerContext \<Rightarrow> 32 word \<Rightarrow> 32 word \<Rightarrow> bool
     \<Rightarrow> error + 'a RunLayerContext" where
  "incremental_forwarding ops L c from to training =
     (let W = getWeight c (weight_idx L weight);
          input' = inputs c SINGLE_INOUT_IDX;
          hidden' = outputs c SINGLE_INOUT_IDX;
          input_dim = dim input';
          hidden_dim = dim hidden'
      in if from \<noteq> 0 \<and> to - from \<noteq> 1 then Inl (invalid_argument msg_step_size)
         else
          (let from1 = (if from \<noteq> 0 then 0 else from);
               to1 = (if from \<noteq> 0 then 1 else to);
               input_step_dim = input_dim\<lparr>height := unat (to1 - from1)\<rparr>;
               hidden_step_dim = hidden_dim\<lparr>height := unat (to1 - from1)\<rparr>;
               input_step = getSharedDataTensor input' input_step_dim 0 True;
               c1 = setOutput c SINGLE_INOUT_IDX
                      (put_shared hidden' hidden_step_dim 0 (op_dot ops input_step W))
           in if bias_enabled L then
                (let hidden_step = getSharedDataTensor (outputs c1 SINGLE_INOUT_IDX) hidden_step_dim 0 True;
                     b = getWeight c1 (weight_idx L bias)
                 in Inr (setOutput c1 SINGLE_INOUT_IDX
                           (put_shared (outputs c1 SINGLE_INOUT_IDX) hidden_step_dim 0
                              (op_add ops hidden_step b))))
              else Inr c1))"

subsection \<open>Backward pass\<close>

text \<open>\<^verbatim>\<open>FullyConnectedLayer::calcDerivative\<close>.\<close>

definition calcDerivative ::
  "'a tensor_ops \<Rightarrow> FullyConnectedLayer \<Rightarrow> 'a RunLayerContext \<Rightarrow> 'a RunLayerContext" where
  "calcDerivative ops L c =
     (let W = getWeight c (weight_idx L weight);
          derivative' = incoming_derivatives c SINGLE_INOUT_IDX
      in setOutgoingDerivative c SINGLE_INOUT_IDX (op_dot_deriv_wrt_1 ops W derivative'))"

text \<open>
  \<^verbatim>\<open>FullyConnectedLayer::calcGradient\<close>: the baseline branch for an empty LoRA rank
  property, the LoRA branch otherwise.
\<close>

definition calcGradient ::
  "'a tensor_ops \<Rightarrow> FullyConnectedLayer \<Rightarrow> 'a RunLayerContext \<Rightarrow> 'a RunLayerContext" where
  "calcGradient ops L c =
     (let derivative' = incoming_derivatives c SINGLE_INOUT_IDX;
          input' = inputs c SINGLE_INOUT_IDX
      in if LoraRank L = None then
           (let iw = weight_idx L weight;
                ib = weight_idx L bias;
                c1 = (if bias_enabled L then
                        (if isGradientFirstAccess c ib then
                           setWeightGrad c ib (op_sum ops [0, 1, 2] derivative')
                         else
                           (let t = op_sum ops [0, 1, 2] derivative'
                            in setWeightGrad c ib (op_add ops (getWeightGrad c ib) t)))
                      else c)
            in setWeightGrad c1 iw
                 (dot_deriv_wrt_2 ops input' (getWeightGrad c1 iw) derivative'
                    (\<not> isGradientFirstAccess c1 iw)))
         else
           (let ia = lora_idx L loraA;
                ib = lora_idx L loraB;
                il = lora_idx L loraW;
                c1 = setTensorGrad c il
                       (dot_deriv_wrt_2 ops input' (getTensorGrad c il) derivative'
                          (\<not> isGradientFirstAccess c il));
                c2 = setWeightGrad c1 ib
                       (dot_deriv_wrt_2 ops (getWeight c1 ia) (getWeightGrad c1 ib)
                          (getTensorGrad c1 il) (\<not> isGradientFirstAccess c1 ib));
                c3 = setWeightGrad c2 ia
                       (dot_batched_deriv_wrt_1 ops (getWeightGrad c2 ia) (getWeight c2 ib)
                          (getTensorGrad c2 il) (\<not> isGradientFirstAccess c2 ia))
            in c3))"


subsection \<open>Matrix shapes and reference kernels\<close>

text \<open>
  Modelled from the spec: "matrix multiply treats the tensor as a standard 2D matrix
  product over the trailing two relevant axes" (tensor.cpp is not among the sources).
  The last axis in memory gives the columns: the width under the channel-first format,
  the channel under the channel-last format; the other three axes, flattened, give the
  rows. A product is defined when the columns of the left operand are the rows of the
  right one.
\<close>

definition mat_rows :: "TensorDim \<Rightarrow> nat" where
  "mat_rows d =
     (if format d = NHWC then batch d * height d * width d else batch d * channel d * height d)"

text \<open>
  Modelled from the spec: the columns of that matrix, the last axis in memory.
\<close>

definition mat_cols :: "TensorDim \<Rightarrow> nat" where
  "mat_cols d = (if format d = NHWC then channel d else width d)"

text \<open>
  Modelled from the spec: the shape of that matrix, and of a product (tensor.cpp is not
  among the sources).
\<close>

definition mat_shape :: "TensorDim \<Rightarrow> nat \<times> nat" where
  "mat_shape d = (mat_rows d, mat_cols d)"

definition dot_shape :: "TensorDim \<Rightarrow> TensorDim \<Rightarrow> (nat \<times> nat) option" where
  "dot_shape a b = (if mat_cols a = mat_rows b then Some (mat_rows a, mat_cols b) else None)"

text \<open>
  Reference kernels over the integers, to run the model on concrete tensors: the exact
  matrix product, the element-wise sum (a shorter right operand is repeated, as a bias
  row is added to every row), the column sums, a dequantization that keeps the values,
  and the three derivatives of the product.
\<close>

definition set_cols :: "TensorDim \<Rightarrow> nat \<Rightarrow> TensorDim" where
  "set_cols d n = (if format d = NHWC then d\<lparr>channel := n\<rparr> else d\<lparr>width := n\<rparr>)"

definition mat_dim :: "TensorDim \<Rightarrow> nat \<Rightarrow> nat \<Rightarrow> TensorDim" where
  "mat_dim d r n =
     (if format d = NHWC then d\<lparr>batch := 1, channel := n, height := 1, width := r\<rparr>
      else d\<lparr>batch := 1, channel := 1, height := r, width := n\<rparr>)"

definition to_rows :: "'a Tensor \<Rightarrow> 'a list list" where
  "to_rows t =
     map (\<lambda>i. take (mat_cols (dim t)) (drop (i * mat_cols (dim t)) (tdata t)))
       [0..<mat_rows (dim t)]"

definition mat_mult :: "int list list \<Rightarrow> int list list \<Rightarrow> int list list" where
  "mat_mult A B = map (\<lambda>r. map (\<lambda>col. sum_list (map2 (*) r col)) (transpose B)) A"

definition ref_dot :: "int Tensor \<Rightarrow> int Tensor \<Rightarrow> int Tensor" where
  "ref_dot a b =
     \<lparr>dim = set_cols (dim a) (mat_cols (dim b)), tname = tname a,
      tdata = concat (mat_mult (to_rows a) (to_rows b))\<rparr>"

definition ref_add :: "int Tensor \<Rightarrow> int Tensor \<Rightarrow> int Tensor" where
  "ref_add a b =
     (if tdata b = [] then a
      else a\<lparr>tdata := map (\<lambda>i. tdata a ! i + tdata b ! (i mod length (tdata b)))
                           [0..<length (tdata a)]\<rparr>)"

definition ref_sum :: "nat list \<Rightarrow> int Tensor \<Rightarrow> int Tensor" where
  "ref_sum axes a =
     \<lparr>dim = mat_dim (dim a) 1 (mat_cols (dim a)), tname = tname a, tdata = map sum_list (transpose (to_rows a))\<rparr>"

definition ref_dequantize :: "int Tensor \<Rightarrow> TensorDim \<Rightarrow> nat \<Rightarrow> int Tensor" where
  "ref_dequantize q d axis = \<lparr>dim = d, tname = tname q, tdata = tdata q\<rparr>"

definition ref_dot_deriv_wrt_1 :: "int Tensor \<Rightarrow> int Tensor \<Rightarrow> int Tensor" where
  "ref_dot_deriv_wrt_1 m d =
     \<lparr>dim = set_cols (dim d) (mat_rows (dim m)), tname = tname d,
      tdata = concat (mat_mult (to_rows d) (transpose (to_rows m)))\<rparr>"

definition ref_dot_deriv_wrt_2 :: "int Tensor \<Rightarrow> int Tensor \<Rightarrow> int Tensor" where
  "ref_dot_deriv_wrt_2 x d =
     \<lparr>dim = mat_dim (dim d) (mat_cols (dim x)) (mat_cols (dim d)), tname = tname d,
      tdata = concat (mat_mult (transpose (to_rows x)) (to_rows d))\<rparr>"

definition ref_ops :: "int tensor_ops" where
  "ref_ops =
     \<lparr>op_dot = ref_dot, op_add = ref_add, op_sum = ref_sum, op_dequantize = ref_dequantize,
      op_dot_deriv_wrt_1 = ref_dot_deriv_wrt_1, op_dot_deriv_wrt_2 = ref_dot_deriv_wrt_2,
      op_dot_batched_deriv_wrt_1 = ref_dot_deriv_wrt_1\<rparr>"


subsection \<open>A reference backend for the tensor front-end\<close>

text \<open>
  The dynamic class of a backend object agrees with the data type of its dimension;
  the constructors of \<^verbatim>\<open>TensorV2\<close> only build such objects.
\<close>

fun class_matches_dtype :: "('f, 'h) ITensor \<Rightarrow> bool" where
  "class_matches_dtype (FloatTensor b) = (data_type (dim b) = FP32)"
| "class_matches_dtype (HalfTensor b) = (data_type (dim b) = FP16)"

text \<open>
  A backend over the integers, to run the front-end on concrete tensors: zero-filled
  storage, and element comparison as equality of the stored elements.
\<close>

definition ref_backend :: "(int, int) backend" where
  "ref_backend =
     \<lparr>new_FloatTensor =
        (\<lambda>d alloc_now init nm. \<lparr>dim = d, tname = nm, tdata = replicate (dim_size d) 0\<rparr>),
      new_FloatTensor_named =
        (\<lambda>nm fm. \<lparr>dim = TensorDim_new 0 0 0 0 fm FP32 15, tname = nm, tdata = []\<rparr>),
      new_HalfTensor =
        (\<lambda>d alloc_now init nm. \<lparr>dim = d, tname = nm, tdata = replicate (dim_size d) 0\<rparr>),
      new_HalfTensor_named =
        (\<lambda>nm fm. \<lparr>dim = TensorDim_new 0 0 0 0 fm FP16 15, tname = nm, tdata = []\<rparr>),
      new_FloatTensor_buf = (\<lambda>d buf. \<lparr>dim = d, tname = [], tdata = map uint buf\<rparr>),
      new_HalfTensor_buf = (\<lambda>d buf. \<lparr>dim = d, tname = [], tdata = map uint buf\<rparr>),
      FloatTensor_eq = (\<lambda>a b. tdata a = tdata b),
      HalfTensor_eq = (\<lambda>a b. tdata a = tdata b)\<rparr>"

definition float_example :: "int list \<Rightarrow> (int, int) TensorV2" where
  "float_example xs =
     \<lparr>itensor = FloatTensor \<lparr>dim = TensorDim_new 1 1 1 2 NCHW FP32 15, tname = ''f'', tdata = xs\<rparr>\<rparr>"

definition half_example :: "int list \<Rightarrow> (int, int) TensorV2" where
  "half_example xs =
     \<lparr>itensor = HalfTensor \<lparr>dim = TensorDim_new 1 1 1 2 NCHW FP16 15, tname = ''h'', tdata = xs\<rparr>\<rparr>"

definition nhwc_example :: "(int, int) TensorV2" where
  "nhwc_example =
     \<lparr>itensor = FloatTensor \<lparr>dim = TensorDim_new 1 2 3 4 NHWC FP32 15, tname = ''t'', tdata = []\<rparr>\<rparr>"

definition nchw_example :: "(int, int) TensorV2" where
  "nchw_example =
     \<lparr>itensor = FloatTensor \<lparr>dim = TensorDim_new 1 2 3 4 NCHW FP32 15, tname = ''t'', tdata = []\<rparr>\<rparr>"

subsection \<open>The forward formula and running examples\<close>

text \<open>
  The test \<^verbatim>\<open>forwarding\<close> makes on the data type of the stored weight.
\<close>

definition is_quantized :: "'a Tensor \<Rightarrow> bool" where
  "is_quantized W = (data_type (dim W) = QINT4 \<or> data_type (dim W) = QINT8)"

text \<open>
  The baseline forward formula, in the words of the spec: "matrix-multiply input by
  weight into output" and, "unless bias is disabled, add bias to every output row".
  The weight of the formula is the stored weight, or its dequantized copy when the
  stored weight is quantized; \<open>lora_product\<close> is the product of the two LoRA factors.
\<close>

definition baseline_forward ::
  "'a tensor_ops \<Rightarrow> 'a Tensor \<Rightarrow> 'a Tensor \<Rightarrow> 'a Tensor option \<Rightarrow> 'a Tensor" where
  "baseline_forward ops x W b =
     (case b of None \<Rightarrow> op_dot ops x W | Some bv \<Rightarrow> op_add ops (op_dot ops x W) bv)"

definition effective_weight ::
  "'a tensor_ops \<Rightarrow> FullyConnectedLayer \<Rightarrow> 'a RunLayerContext \<Rightarrow> 'a Tensor" where
  "effective_weight ops L c =
     (let W = getWeight c (weight_idx L weight)
      in if is_quantized W then
           op_dequantize ops W
             \<lparr>batch = batch (dim W), channel = channel (dim W), height = height (dim W),
              width = width (dim W), format = format (dim W),
              data_type = data_type (dim (inputs c SINGLE_INOUT_IDX)),
              eff_dim_flag = 15, dyn_dim_flag = 0\<rparr>
             (output_axis (weights c (weight_idx L weight)))
         else W)"

definition bias_of :: "FullyConnectedLayer \<Rightarrow> 'a RunLayerContext \<Rightarrow> 'a Tensor option" where
  "bias_of L c = (if bias_enabled L then Some (getWeight c (weight_idx L bias)) else None)"

definition lora_product ::
  "'a tensor_ops \<Rightarrow> FullyConnectedLayer \<Rightarrow> 'a RunLayerContext \<Rightarrow> 'a Tensor" where
  "lora_product ops L c =
     op_dot ops (getWeight c (lora_idx L loraA)) (getWeight c (lora_idx L loraB))"

text \<open>
  A setup context with one input, and two layers of two units as \<^verbatim>\<open>finalize\<close>
  leaves them on a channel-first input of width 2: one with LoRA rank 1, one without
  LoRA. Weight 0 is the weight, 1 the bias, 2 and 3 the LoRA factors; tensor 0 is the
  LoRA scratch tensor.
\<close>

definition example_init :: "Tformat \<Rightarrow> TensorDim \<Rightarrow> InitLayerContext" where
  "example_init fm d =
     \<lparr>input_dimensions = [d], tensor_format = fm, activation_dtype = FP32, weight_dtype = FP32,
      output_dimensions = [], weights_spec = [], tensors_spec = []\<rparr>"

definition lora_layer :: FullyConnectedLayer where
  "lora_layer =
     \<lparr>Unit = 2, LoraRank = Some 1, DisableBias = None, WeightInitializer = Initializer_NONE,
      BiasInitializer = Initializer_NONE,
      weight_idx = (\<lambda>p. case p of weight \<Rightarrow> 0 | bias \<Rightarrow> 1),
      lora_idx = (\<lambda>p. case p of loraA \<Rightarrow> 2 | loraB \<Rightarrow> 3 | loraW \<Rightarrow> 0)\<rparr>"

definition plain_layer :: FullyConnectedLayer where
  "plain_layer =
     \<lparr>Unit = 2, LoraRank = None, DisableBias = None, WeightInitializer = Initializer_NONE,
      BiasInitializer = Initializer_NONE,
      weight_idx = (\<lambda>p. case p of weight \<Rightarrow> 0 | bias \<Rightarrow> 1),
      lora_idx = (\<lambda>_. 0)\<rparr>"

text \<open>
  A run context over the reference kernels: the weight \<open>[[1, 2], [3, 4]]\<close> (with the
  data type given), the bias \<open>[10, 20]\<close>, the LoRA factors \<open>[[1], [1]]\<close> and
  \<open>[[1, 1]]\<close>, the input \<open>[[1, 1], [2, 0]]\<close> and the incoming derivative
  \<open>[[1, 1], [1, 0]]\<close>; and a second one that differs from it in the LoRA tensors and
  in the stored gradient of the weight only.
\<close>

definition mat :: "nat \<Rightarrow> nat \<Rightarrow> Tdatatype \<Rightarrow> int list \<Rightarrow> int Tensor" where
  "mat r n dt xs = \<lparr>dim = TensorDim_new 1 1 r n NCHW dt 15, tname = ''m'', tdata = xs\<rparr>"

definition example_run :: "Tdatatype \<Rightarrow> int RunLayerContext" where
  "example_run dt =
     \<lparr>weights = (\<lambda>_. \<lparr>var = mat 0 0 FP32 [], grad = mat 0 0 FP32 [], output_axis = 0\<rparr>)
        (0 := \<lparr>var = mat 2 2 dt [1, 2, 3, 4], grad = mat 2 2 FP32 [7, 7, 7, 7], output_axis = 3\<rparr>,
         1 := \<lparr>var = mat 1 2 FP32 [10, 20], grad = mat 1 2 FP32 [9, 9], output_axis = 3\<rparr>,
         2 := \<lparr>var = mat 2 1 FP32 [1, 1], grad = mat 2 1 FP32 [0, 0], output_axis = 3\<rparr>,
         3 := \<lparr>var = mat 1 2 FP32 [1, 1], grad = mat 1 2 FP32 [0, 0], output_axis = 3\<rparr>),
      tensors = (\<lambda>_. \<lparr>var = mat 0 0 FP32 [], grad = mat 0 0 FP32 []\<rparr>)
        (0 := \<lparr>var = mat 2 2 FP32 [0, 0, 0, 0], grad = mat 2 2 FP32 [0, 0, 0, 0]\<rparr>),
      inputs = (\<lambda>_. mat 2 2 FP32 [1, 1, 2, 0]),
      outputs = (\<lambda>_. mat 2 2 FP32 [0, 0, 0, 0]),
      incoming_derivatives = (\<lambda>_. mat 2 2 FP32 [1, 1, 1, 0]),
      outgoing_derivatives = (\<lambda>_. mat 2 2 FP32 [0, 0, 0, 0]),
      gradient_first_access = (\<lambda>_. True)\<rparr>"

definition example_run_other_lora :: "int RunLayerContext" where
  "example_run_other_lora =
     setWeight (setWeightGrad (setTensor (example_run FP32) 0 (mat 2 2 FP32 [8, 8, 8, 8])) 0
        (mat 2 2 FP32 [0, 0, 0, 0])) 2 (mat 2 1 FP32 [5, 6])"

text \<open>
  A channel-last setup: a constructed layer of two units with LoRA rank 1, and a context
  whose input has three channels.
\<close>

definition nhwc_lora_layer0 :: FullyConnectedLayer where
  "nhwc_lora_layer0 =
     FullyConnectedLayer_new 2 (Some 1) None Initializer_NONE Initializer_NONE (\<lambda>_. 0)"

definition nhwc_init :: InitLayerContext where
  "nhwc_init = example_init NHWC (TensorDim_new 1 3 1 1 NHWC FP32 15)"

section \<open>Properties of the tensor front-end\<close>

subsection \<open>Adjacency of axes\<close>

lemma word_le_3_cases: "\<not> 3 < x \<Longrightarrow> x = 0 \<or> x = 1 \<or> x = 2 \<or> x = 3" for x :: "32 word"
proof -
  assume "\<not> 3 < x"
  then have "unat x \<le> 3" by (simp add: word_le_nat_alt not_less)
  then have "unat x = 0 \<or> unat x = 1 \<or> unat x = 2 \<or> unat x = 3" by arith
  then show ?thesis by (simp add: word_unat_eq_iff)
qed

lemma continuous_order_nhwc_nth:
  "continuous_order_nhwc ! 0 = 0"
  "continuous_order_nhwc ! Suc 0 = 3"
  "continuous_order_nhwc ! 2 = 1"
  "continuous_order_nhwc ! 3 = 2"
  by (simp_all add: continuous_order_nhwc_def numeral_2_eq_2 numeral_3_eq_3)

text \<open>
  C7, as the code has it. An axis argument above 3 is refused with
  \<^verbatim>\<open>std::invalid_argument\<close>. For arguments within 0..3 the channel-first format
  answers true exactly when \<open>np2 = np1 + 1\<close>. The channel-last table
  \<open>[0, 3, 1, 2]\<close> gives each axis its position in memory (batch 0, channel 3, height 1,
  width 2), and the answer is true exactly when the position of \<open>np2\<close> follows the
  position of \<open>np1\<close>: for the pairs (0, 2), (2, 3) and (3, 1).
\<close>

theorem checkContinuous_pairs:
  "checkContinuous t np1 np2 =
     (if 3 < np1 \<or> 3 < np2 then Inl (invalid_argument msg_axis_range)
      else if getFormat t = NCHW then Inr (np2 = np1 + 1)
      else Inr ((np1, np2) \<in> {(0, 2), (2, 3), (3, 1)}))"
proof (cases "3 < np1 \<or> 3 < np2")
  case True
  then show ?thesis by (auto simp: checkContinuous_def)
next
  case False
  then have a: "np1 = 0 \<or> np1 = 1 \<or> np1 = 2 \<or> np1 = 3"
    and b: "np2 = 0 \<or> np2 = 1 \<or> np2 = 2 \<or> np2 = 3"
    using word_le_3_cases by auto
  have nchw: "(if np1 + 1 = np2 then Inr True else Inr False) = (Inr (np2 = np1 + 1) :: error + bool)"
    by auto
  have nhwc: "(if continuous_order_nhwc ! unat np2 = continuous_order_nhwc ! unat np1 + 1
         then Inr True else Inr False) = (Inr ((np1, np2) \<in> {(0, 2), (2, 3), (3, 1)}) :: error + bool)"
    using a b by (elim disjE) (simp_all add: continuous_order_nhwc_nth)
  from False show ?thesis
    unfolding checkContinuous_def nchw nhwc by (simp add: not_less)
qed

text \<open>
  The table is not a chain 0, 3, 1, 2 of adjacent axes: on a channel-last tensor the
  pairs (0, 3) and (1, 2) of that chain are answered false, and the pair (0, 2), which
  is not in the chain, is answered true.
\<close>

theorem checkContinuous_chain_counterexample:
  "checkContinuous nhwc_example 0 3 = Inr False
   \<and> checkContinuous nhwc_example 1 2 = Inr False
   \<and> checkContinuous nhwc_example 0 2 = Inr True"
  by (simp add: checkContinuous_def nhwc_example_def getFormat_def TensorDim_new_def
      continuous_order_nhwc_nth)

text \<open>
  On a channel-first tensor: consecutive axes are adjacent, in this order only, and an
  axis argument of 4 is refused.
\<close>

lemma checkContinuous_nchw_example:
  "checkContinuous nchw_example 0 1 = Inr True"
  "checkContinuous nchw_example 2 3 = Inr True"
  "checkContinuous nchw_example 1 0 = Inr False"
  "checkContinuous nchw_example 0 2 = Inr False"
  "checkContinuous nchw_example 4 0 = Inl (invalid_argument msg_axis_range)"
  "checkContinuous nhwc_example 0 4 = Inl (invalid_argument msg_axis_range)"
  by (simp_all add: checkContinuous_def nchw_example_def nhwc_example_def getFormat_def
      TensorDim_new_def)

subsection \<open>Construction\<close>

text \<open>
  C9. A construction request whose data type is neither FP32 nor FP16, or is FP16 in
  a build without \<^verbatim>\<open>ENABLE_FP16\<close>, fails with \<^verbatim>\<open>std::invalid_argument\<close>, through
  each of the three constructors that take a data type (from a dimension, from a name,
  from a dimension and a buffer). The message of the build case differs from the
  message of the unrecognized case.
\<close>

theorem TensorV2_unsupported_dtype:
  assumes "dt \<noteq> FP32" and "dt = FP16 \<longrightarrow> \<not> ENABLE_FP16" and "data_type d = dt"
  shows "TensorV2_new ENABLE_FP16 be d alloc_now init nm =
           Inl (invalid_argument (if dt = FP16 then msg_fp16_disabled else msg_unsupported_dtype))
       \<and> TensorV2_named ENABLE_FP16 be nm fm dt =
           Inl (invalid_argument (if dt = FP16 then msg_fp16_disabled else msg_unsupported_dtype))
       \<and> TensorV2_buf ENABLE_FP16 be d buf =
           Inl (invalid_argument (if dt = FP16 then msg_fp16_disabled else msg_unsupported_dtype))
       \<and> msg_fp16_disabled \<noteq> msg_unsupported_dtype"
proof -
  have "msg_fp16_disabled \<noteq> msg_unsupported_dtype"
    by (simp add: msg_fp16_disabled_def msg_unsupported_dtype_def)
  with assms show ?thesis
    by (simp add: TensorV2_new_def TensorV2_named_def TensorV2_buf_def)
qed

theorem TensorV2_unsupported_dtype_witness:
  "TensorV2_new False ref_backend (TensorDim_new 1 1 2 2 NCHW FP16 15) True Initializer_NONE ''t''
     = Inl (invalid_argument msg_fp16_disabled)
   \<and> TensorV2_named False ref_backend ''t'' NCHW FP16 = Inl (invalid_argument msg_fp16_disabled)
   \<and> TensorV2_new True ref_backend (TensorDim_new 1 1 2 2 NCHW QINT8 15) True Initializer_NONE ''t''
     = Inl (invalid_argument msg_unsupported_dtype)
   \<and> TensorV2_named True ref_backend ''t'' NCHW QINT8 = Inl (invalid_argument msg_unsupported_dtype)
   \<and> TensorV2_buf False ref_backend (TensorDim_new 1 1 2 2 NCHW FP16 15) [] = Inl (invalid_argument msg_fp16_disabled)"
  using TensorV2_unsupported_dtype [of FP16 False "TensorDim_new 1 1 2 2 NCHW FP16 15" ref_backend
      True Initializer_NONE "''t''" NCHW "[]"]
    TensorV2_unsupported_dtype [of QINT8 True "TensorDim_new 1 1 2 2 NCHW QINT8 15" ref_backend
      True Initializer_NONE "''t''" NCHW "[]"]
  by (simp add: TensorDim_new_def)

text \<open>The supported requests succeed, with a backend object of the matching class.\<close>

lemma TensorV2_new_supported:
  "data_type d = FP32 \<or> (data_type d = FP16 \<and> ENABLE_FP16) \<Longrightarrow>
     \<exists>t. TensorV2_new ENABLE_FP16 be d alloc_now init nm = Inr t"
  by (auto simp: TensorV2_new_def)

subsection \<open>Equality\<close>

lemma TensorBase_eq_refl: "TensorBase_eq a a"
  by (simp add: TensorBase_eq_def)

lemma TensorBase_eq_sym: "TensorBase_eq a b = TensorBase_eq b a"
  by (auto simp: TensorBase_eq_def)

lemma TensorBase_eq_dtype:
  "TensorBase_eq (itensor x) (itensor y) \<Longrightarrow> getDataType x = getDataType y"
  by (simp add: TensorBase_eq_def getDataType_def)

text \<open>
  C8. For backends whose element comparison is reflexive and symmetric,
  \<^verbatim>\<open>operator==\<close> is reflexive (on a tensor the build can construct) and symmetric.
  It answers false as soon as the tensor information differs, in particular whenever
  the two data types differ, whatever the elements are; when the information matches
  it answers with the element comparison of the backend of that data type.
\<close>

theorem TensorV2_eq_relation:
  assumes "\<forall>a. FloatTensor_eq be a a" and "\<forall>a. HalfTensor_eq be a a"
    and "\<forall>a b. FloatTensor_eq be a b = FloatTensor_eq be b a"
    and "\<forall>a b. HalfTensor_eq be a b = HalfTensor_eq be b a"
  shows "(class_matches_dtype (itensor x) \<and> (ENABLE_FP16 \<or> getDataType x = FP32)
            \<longrightarrow> TensorV2_eq ENABLE_FP16 be x x = Inr True)
       \<and> TensorV2_eq ENABLE_FP16 be x y = TensorV2_eq ENABLE_FP16 be y x
       \<and> (\<not> TensorBase_eq (itensor x) (itensor y) \<longrightarrow> TensorV2_eq ENABLE_FP16 be x y = Inr False)
       \<and> (getDataType x \<noteq> getDataType y \<longrightarrow> TensorV2_eq ENABLE_FP16 be x y = Inr False)
       \<and> (TensorBase_eq (itensor x) (itensor y) \<longrightarrow>
            (\<forall>a b. itensor x = FloatTensor a \<and> itensor y = FloatTensor b \<and> getDataType x = FP32
               \<longrightarrow> TensorV2_eq ENABLE_FP16 be x y = Inr (FloatTensor_eq be a b)) \<and>
            (\<forall>a b. itensor x = HalfTensor a \<and> itensor y = HalfTensor b \<and> getDataType x = FP16
                 \<and> ENABLE_FP16
               \<longrightarrow> TensorV2_eq ENABLE_FP16 be x y = Inr (HalfTensor_eq be a b)))"
proof (intro conjI)
  show "class_matches_dtype (itensor x) \<and> (ENABLE_FP16 \<or> getDataType x = FP32)
          \<longrightarrow> TensorV2_eq ENABLE_FP16 be x x = Inr True"
    using assms(1,2)
    by (cases "itensor x")
      (auto simp: TensorV2_eq_def TensorBase_eq_refl getDataType_def)
next
  show "TensorV2_eq ENABLE_FP16 be x y = TensorV2_eq ENABLE_FP16 be y x"
  proof (cases "TensorBase_eq (itensor x) (itensor y)")
    case False
    then show ?thesis using TensorBase_eq_sym [of "itensor x" "itensor y"]
      by (simp add: TensorV2_eq_def)
  next
    case True
    then have t: "TensorBase_eq (itensor y) (itensor x)" and d: "getDataType y = getDataType x"
      using TensorBase_eq_sym [of "itensor x" "itensor y"] TensorBase_eq_dtype [of x y] by auto
    show ?thesis
      using assms(3,4) True t d
      by (cases "itensor x"; cases "itensor y") (auto simp: TensorV2_eq_def)
  qed
next
  show "\<not> TensorBase_eq (itensor x) (itensor y) \<longrightarrow> TensorV2_eq ENABLE_FP16 be x y = Inr False"
    by (simp add: TensorV2_eq_def)
next
  show "getDataType x \<noteq> getDataType y \<longrightarrow> TensorV2_eq ENABLE_FP16 be x y = Inr False"
    using TensorBase_eq_dtype [of x y] by (auto simp: TensorV2_eq_def)
next
  show "TensorBase_eq (itensor x) (itensor y) \<longrightarrow>
            (\<forall>a b. itensor x = FloatTensor a \<and> itensor y = FloatTensor b \<and> getDataType x = FP32
               \<longrightarrow> TensorV2_eq ENABLE_FP16 be x y = Inr (FloatTensor_eq be a b)) \<and>
            (\<forall>a b. itensor x = HalfTensor a \<and> itensor y = HalfTensor b \<and> getDataType x = FP16
                 \<and> ENABLE_FP16
               \<longrightarrow> TensorV2_eq ENABLE_FP16 be x y = Inr (HalfTensor_eq be a b))"
    by (auto simp: TensorV2_eq_def)
qed

text \<open>
  On the reference backend: a tensor equals itself, the comparison of two FP32 tensors
  with different elements is false in both directions, and an FP32 tensor differs from
  an FP16 tensor that holds the same elements.
\<close>

theorem TensorV2_eq_relation_witness:
  "TensorV2_eq True ref_backend (float_example [1, 2]) (float_example [1, 2]) = Inr True
   \<and> TensorV2_eq True ref_backend (float_example [1, 2]) (float_example [1, 3]) = Inr False
   \<and> TensorV2_eq True ref_backend (float_example [1, 3]) (float_example [1, 2]) = Inr False
   \<and> TensorV2_eq True ref_backend (float_example [1, 2]) (half_example [1, 2]) = Inr False
   \<and> TensorV2_eq True ref_backend (half_example [1, 2]) (float_example [1, 2]) = Inr False"
proof -
  have r: "\<forall>a. FloatTensor_eq ref_backend a a" "\<forall>a. HalfTensor_eq ref_backend a a"
    and s: "\<forall>a b. FloatTensor_eq ref_backend a b = FloatTensor_eq ref_backend b a"
      "\<forall>a b. HalfTensor_eq ref_backend a b = HalfTensor_eq ref_backend b a"
    by (auto simp: ref_backend_def)
  note t = TensorV2_eq_relation [OF r s, of _ True]
  have 1: "TensorV2_eq True ref_backend (float_example [1, 2]) (float_example [1, 2]) = Inr True"
    using t [of "float_example [1, 2]" "float_example [1, 2]"]
    by (simp add: float_example_def getDataType_def TensorDim_new_def)
  have 2: "TensorV2_eq True ref_backend (float_example [1, 2]) (float_example [1, 3]) = Inr False"
  proof -
    have "TensorV2_eq True ref_backend (float_example [1, 2]) (float_example [1, 3])
            = Inr (FloatTensor_eq ref_backend
                \<lparr>dim = TensorDim_new 1 1 1 2 NCHW FP32 15, tname = ''f'', tdata = [1, 2]\<rparr>
                \<lparr>dim = TensorDim_new 1 1 1 2 NCHW FP32 15, tname = ''f'', tdata = [1, 3]\<rparr>)"
      using t [of "float_example [1, 2]" "float_example [1, 3]"]
      by (auto simp: float_example_def getDataType_def TensorDim_new_def TensorBase_eq_def)
    then show ?thesis by (simp add: ref_backend_def)
  qed
  have "TensorV2_eq True ref_backend (float_example [1, 3]) (float_example [1, 2])
          = TensorV2_eq True ref_backend (float_example [1, 2]) (float_example [1, 3])"
    using t [of "float_example [1, 3]" "float_example [1, 2]"] by blast
  also note 2
  finally have 3:
    "TensorV2_eq True ref_backend (float_example [1, 3]) (float_example [1, 2]) = Inr False" .
  have "getDataType (float_example [1, 2]) \<noteq> getDataType (half_example [1, 2]) \<longrightarrow>
          TensorV2_eq True ref_backend (float_example [1, 2]) (half_example [1, 2]) = Inr False"
    using t [of "float_example [1, 2]" "half_example [1, 2]"] by blast
  then have 4:
    "TensorV2_eq True ref_backend (float_example [1, 2]) (half_example [1, 2]) = Inr False"
    by (simp add: float_example_def half_example_def getDataType_def TensorDim_new_def)
  have "TensorV2_eq True ref_backend (half_example [1, 2]) (float_example [1, 2])
          = TensorV2_eq True ref_backend (float_example [1, 2]) (half_example [1, 2])"
    using t [of "half_example [1, 2]" "float_example [1, 2]"] by blast
  also note 4
  finally have 5:
    "TensorV2_eq True ref_backend (half_example [1, 2]) (float_example [1, 2]) = Inr False" .
  from 1 2 3 4 5 show ?thesis by simp
qed

section \<open>Properties of the fully connected layer\<close>

lemmas ctx_defs = getWeight_def getWeightGrad_def getTensor_def getTensorGrad_def
  isGradientFirstAccess_def setWeight_def setWeightGrad_def setTensor_def setTensorGrad_def
  setOutput_def setOutgoingDerivative_def SINGLE_INOUT_IDX_def

subsection \<open>Setup: indices and shapes\<close>

text \<open>
  The two example layers are what \<^verbatim>\<open>finalize\<close> makes of a constructed layer on a
  fresh context.
\<close>

lemma finalize_lora_example:
  "finalize (FullyConnectedLayer_new 2 (Some 1) None Initializer_NONE Initializer_NONE (\<lambda>_. 0))
     (example_init NCHW (TensorDim_new 1 1 2 2 NCHW FP32 15)) = Inr (L, c) \<Longrightarrow> L = lora_layer"
  by (auto simp: finalize_def FullyConnectedLayer_new_def example_init_def Let_def
      setEffDimFlagInputDimension_def setDynDimFlagInputDimension_def requestWeight_def
      requestTensor_def bias_enabled_def lora_layer_def split: FCParams.splits LORAParams.splits
      intro!: ext)

lemma finalize_plain_example:
  "finalize (FullyConnectedLayer_new 2 None None Initializer_NONE Initializer_NONE (\<lambda>_. 0))
     (example_init NCHW (TensorDim_new 1 1 2 2 NCHW FP32 15)) = Inr (L, c) \<Longrightarrow> L = plain_layer"
  by (auto simp: finalize_def FullyConnectedLayer_new_def example_init_def Let_def
      setEffDimFlagInputDimension_def setDynDimFlagInputDimension_def requestWeight_def
      requestTensor_def bias_enabled_def plain_layer_def split: FCParams.splits LORAParams.splits
      intro!: ext)

text \<open>
  On a fresh context the weight gets index 0, an enabled bias index 1, and the LoRA
  factors the next two indices: the weight and bias indices differ from each other and
  from the indices of the LoRA factors. A disabled bias keeps the index the constructor
  gave it.
\<close>

lemma finalize_indices:
  assumes "finalize L c0 = Inr (L', c')" and "weights_spec c0 = []"
  shows "weight_idx L' weight = 0
       \<and> weight_idx L' bias = (if bias_enabled L then 1 else weight_idx L bias)
       \<and> (\<forall>r. LoraRank L = Some r \<and> r \<noteq> 0 \<longrightarrow>
            lora_idx L' loraA = (if bias_enabled L then 2 else 1)
            \<and> lora_idx L' loraB = (if bias_enabled L then 3 else 2)
            \<and> lora_idx L' loraW = length (tensors_spec c0))"
  using assms
  by (auto simp: finalize_def Let_def setEffDimFlagInputDimension_def
      setDynDimFlagInputDimension_def requestWeight_def requestTensor_def
      split: if_splits option.splits)

text \<open>
  The rank that \<^verbatim>\<open>finalize\<close> computes is 0 for an empty LoRA rank property; for a
  property that holds a positive rank it is 0 only then, and this is the emptiness test
  of \<^verbatim>\<open>forwarding\<close> and \<^verbatim>\<open>calcGradient\<close>.
\<close>

lemma lora_rank_zero_iff_empty:
  "(case LoraRank L of None \<Rightarrow> True | Some r \<Rightarrow> 0 < r) \<Longrightarrow>
     ((case LoraRank L of None \<Rightarrow> 0 | Some r \<Rightarrow> r) = 0) = (LoraRank L = None)"
  by (cases "LoraRank L") auto

text \<open>
  Under the channel-first format the LoRA factors multiply to the shape of the weight,
  for every rank, unit count and input dimension.
\<close>

lemma finalize_dims_nchw:
  "dot_shape (fc_loraA_dim True r d NCHW dt) (fc_loraB_dim True u r d NCHW dt)
     = Some (mat_shape (fc_weight_dim True u d NCHW dt))"
  by (simp add: dot_shape_def mat_shape_def mat_rows_def mat_cols_def fc_loraA_dim_def
      fc_loraB_dim_def fc_weight_dim_def TensorDim_new_def)

text \<open>
  Under the channel-last format the dimension of \<^verbatim>\<open>loraB\<close> is the dimension of the
  weight and does not depend on the rank; the product of the factors is defined only
  when the rank happens to equal the channel count of the input.
\<close>

lemma fc_loraB_dim_nhwc: "fc_loraB_dim False u r d fm dt = fc_weight_dim False u d fm dt"
  by (simp add: fc_loraB_dim_def fc_weight_dim_def)

lemma finalize_dims_nhwc:
  "dot_shape (fc_loraA_dim False r d NHWC dt) (fc_loraB_dim False u r d NHWC dt)
     = (if r = channel d then Some (mat_shape (fc_weight_dim False u d NHWC dt)) else None)"
  by (simp add: dot_shape_def mat_shape_def mat_rows_def mat_cols_def fc_loraA_dim_def
      fc_loraB_dim_def fc_weight_dim_def TensorDim_new_def)

text \<open>
  C6, at a channel-last input with three channels, two units and rank 1. The weight
  requested is a 3 by 2 matrix and \<^verbatim>\<open>loraA\<close> a 3 by 1 matrix, but \<^verbatim>\<open>loraB\<close> is
  requested as a 3 by 2 matrix where the comment of \<^verbatim>\<open>finalize\<close> asks for
  \<open>(lora_rank, out_dim)\<close>, 1 by 2: the product \<^verbatim>\<open>loraA\<close> times \<^verbatim>\<open>loraB\<close> is not
  defined.
\<close>

theorem finalize_nhwc_lora_shapes:
  "(case finalize nhwc_lora_layer0 nhwc_init of
      Inl e \<Rightarrow> False
    | Inr (L, c) \<Rightarrow>
        mat_shape (fst (weights_spec c ! weight_idx L weight)) = (3, 2)
        \<and> mat_shape (fst (weights_spec c ! lora_idx L loraA)) = (3, 1)
        \<and> mat_shape (fst (weights_spec c ! lora_idx L loraB)) = (3, 2)
        \<and> dot_shape (fst (weights_spec c ! lora_idx L loraA)) (fst (weights_spec c ! lora_idx L loraB))
            = None)"
  by (simp add: finalize_def nhwc_lora_layer0_def nhwc_init_def example_init_def
      FullyConnectedLayer_new_def Let_def setEffDimFlagInputDimension_def
      setDynDimFlagInputDimension_def requestWeight_def requestTensor_def bias_enabled_def
      fc_bias_dim_def fc_weight_dim_def fc_loraA_dim_def fc_loraB_dim_def TensorDim_new_def
      mat_shape_def mat_rows_def mat_cols_def dot_shape_def)

subsection \<open>Forward pass with LoRA\<close>

lemma forwarding_lora_Stored:
  "forwarding_lora ops L c (Stored i) =
     (setWeight (setTensor c (lora_idx L loraW) (lora_product ops L c)) i
        (op_add ops (getWeight c i) (lora_product ops L c)),
      op_add ops (getWeight c i) (lora_product ops L c))"
  by (simp add: forwarding_lora_def lora_product_def Let_def ctx_defs)

lemma forwarding_lora_Temp:
  "forwarding_lora ops L c (Temp t) =
     (setTensor c (lora_idx L loraW) (lora_product ops L c), op_add ops t (lora_product ops L c))"
  by (simp add: forwarding_lora_def lora_product_def Let_def ctx_defs)

text \<open>
  C1, as the code has it. With a LoRA rank property set, a forward call leaves the
  product of the LoRA factors in the scratch tensor, and \<^verbatim>\<open>forwarding_lora\<close> adds it
  to the tensor its reference parameter is bound to. On the quantized path that tensor
  is the local dequantized copy, and the weights stored in the context are unchanged
  after the call. On the non-quantized path it is the stored weight itself: after the
  call the stored weight holds the sum of its old value and the product, and every
  other stored weight is unchanged. On both paths the main product, and so the output,
  is taken with the tensor after the addition.
\<close>

theorem forwarding_lora_weight:
  assumes "LoraRank L \<noteq> None"
  shows "getTensor (forwarding ops L c training) (lora_idx L loraW) = lora_product ops L c
       \<and> snd (forwarding_lora ops L c (Stored i)) = op_add ops (getWeight c i) (lora_product ops L c)
       \<and> snd (forwarding_lora ops L c (Temp t)) = op_add ops t (lora_product ops L c)
       \<and> (is_quantized (getWeight c (weight_idx L weight)) \<longrightarrow>
            weights (forwarding ops L c training) = weights c)
       \<and> (\<not> is_quantized (getWeight c (weight_idx L weight)) \<longrightarrow>
            getWeight (forwarding ops L c training) (weight_idx L weight)
              = op_add ops (getWeight c (weight_idx L weight)) (lora_product ops L c)
            \<and> (\<forall>j. j \<noteq> weight_idx L weight \<longrightarrow>
                  weights (forwarding ops L c training) j = weights c j))
       \<and> outputs (forwarding ops L c training) SINGLE_INOUT_IDX
           = baseline_forward ops (inputs c SINGLE_INOUT_IDX)
               (op_add ops (effective_weight ops L c) (lora_product ops L c))
               (bias_of L (forwarding ops L c training))"
  using assms
  by (simp add: forwarding_def forwarding_lora_Stored forwarding_lora_Temp Let_def is_quantized_def
      effective_weight_def baseline_forward_def bias_of_def ctx_defs)

text \<open>
  The stored weight \<open>[[1, 2], [3, 4]]\<close> of the FP32 example is \<open>[[2, 3], [4, 5]]\<close>
  after one forward call with LoRA: the product \<open>[[1, 1], [1, 1]]\<close> of the factors has
  been added into it and stays there.
\<close>

theorem forwarding_lora_weight_counterexample:
  "LoraRank lora_layer = Some 1
   \<and> \<not> is_quantized (getWeight (example_run FP32) (weight_idx lora_layer weight))
   \<and> getWeight (example_run FP32) (weight_idx lora_layer weight) = mat 2 2 FP32 [1, 2, 3, 4]
   \<and> getWeight (forwarding ref_ops lora_layer (example_run FP32) True) (weight_idx lora_layer weight)
       = mat 2 2 FP32 [2, 3, 4, 5]
   \<and> getWeight (forwarding ref_ops lora_layer (example_run FP32) True) (weight_idx lora_layer weight)
       \<noteq> getWeight (example_run FP32) (weight_idx lora_layer weight)"
  by code_simp

theorem forwarding_lora_weight_witness:
  "getTensor (forwarding ref_ops lora_layer (example_run FP32) True) (lora_idx lora_layer loraW)
     = mat 2 2 FP32 [1, 1, 1, 1]
   \<and> getWeight (forwarding ref_ops lora_layer (example_run FP32) True) (weight_idx lora_layer weight)
     = mat 2 2 FP32 [2, 3, 4, 5]
   \<and> weights (forwarding ref_ops lora_layer (example_run QINT8) True) = weights (example_run QINT8)"
proof -
  have h: "LoraRank lora_layer \<noteq> None" by (simp add: lora_layer_def)
  have nq: "\<not> is_quantized (getWeight (example_run FP32) (weight_idx lora_layer weight))"
    by code_simp
  have q: "is_quantized (getWeight (example_run QINT8) (weight_idx lora_layer weight))"
    by code_simp
  have "getTensor (forwarding ref_ops lora_layer (example_run FP32) True) (lora_idx lora_layer loraW)
          = lora_product ref_ops lora_layer (example_run FP32)"
    using forwarding_lora_weight [OF h, of ref_ops "example_run FP32" True] by blast
  also have "\<dots> = mat 2 2 FP32 [1, 1, 1, 1]" by code_simp
  finally have 1: "getTensor (forwarding ref_ops lora_layer (example_run FP32) True)
      (lora_idx lora_layer loraW) = mat 2 2 FP32 [1, 1, 1, 1]" .
  have "getWeight (forwarding ref_ops lora_layer (example_run FP32) True) (weight_idx lora_layer weight)
          = op_add ref_ops (getWeight (example_run FP32) (weight_idx lora_layer weight))
              (lora_product ref_ops lora_layer (example_run FP32))"
    using forwarding_lora_weight [OF h, of ref_ops "example_run FP32" True] nq by blast
  also have "\<dots> = mat 2 2 FP32 [2, 3, 4, 5]" by code_simp
  finally have 2: "getWeight (forwarding ref_ops lora_layer (example_run FP32) True)
      (weight_idx lora_layer weight) = mat 2 2 FP32 [2, 3, 4, 5]" .
  have 3: "weights (forwarding ref_ops lora_layer (example_run QINT8) True) = weights (example_run QINT8)"
    using forwarding_lora_weight [OF h, of ref_ops "example_run QINT8" True] q by blast
  from 1 2 3 show ?thesis by blast
qed

text \<open>
  C3. Let the bias index differ from the weight index when the bias is enabled (as
  \<^verbatim>\<open>finalize\<close> assigns them). With a LoRA rank property holding a positive rank, the
  output of \<^verbatim>\<open>forwarding\<close> is the baseline forward formula at the weight plus the
  product of the LoRA factors. With an empty LoRA rank property (rank 0) the output is
  the baseline forward formula at the weight itself, computed by the same kernels on
  the same tensors, and no stored weight or tensor changes.
\<close>

theorem forwarding_lora_equiv:
  assumes "bias_enabled L \<longrightarrow> weight_idx L bias \<noteq> weight_idx L weight"
  shows "(\<forall>r. LoraRank L = Some r \<and> 0 < r \<longrightarrow>
            outputs (forwarding ops L c training) SINGLE_INOUT_IDX
              = baseline_forward ops (inputs c SINGLE_INOUT_IDX)
                  (op_add ops (effective_weight ops L c) (lora_product ops L c)) (bias_of L c))
       \<and> (LoraRank L = None \<longrightarrow>
            outputs (forwarding ops L c training) SINGLE_INOUT_IDX
              = baseline_forward ops (inputs c SINGLE_INOUT_IDX) (effective_weight ops L c) (bias_of L c)
            \<and> weights (forwarding ops L c training) = weights c
            \<and> tensors (forwarding ops L c training) = tensors c)"
  using assms
  by (auto simp: forwarding_def forwarding_lora_Stored forwarding_lora_Temp Let_def is_quantized_def
      effective_weight_def baseline_forward_def bias_of_def ctx_defs)

theorem forwarding_lora_equiv_witness:
  "outputs (forwarding ref_ops lora_layer (example_run FP32) True) SINGLE_INOUT_IDX
     = mat 2 2 FP32 [16, 28, 14, 26]
   \<and> outputs (forwarding ref_ops lora_layer (example_run QINT8) True) SINGLE_INOUT_IDX
     = mat 2 2 FP32 [16, 28, 14, 26]
   \<and> outputs (forwarding ref_ops plain_layer (example_run FP32) True) SINGLE_INOUT_IDX
     = mat 2 2 FP32 [14, 26, 12, 24]
   \<and> weights (forwarding ref_ops plain_layer (example_run FP32) True) = weights (example_run FP32)"
proof -
  have hl: "bias_enabled lora_layer \<longrightarrow> weight_idx lora_layer bias \<noteq> weight_idx lora_layer weight"
    by (simp add: lora_layer_def)
  have hp: "bias_enabled plain_layer \<longrightarrow> weight_idx plain_layer bias \<noteq> weight_idx plain_layer weight"
    by (simp add: plain_layer_def)
  have r: "LoraRank lora_layer = Some 1 \<and> (0::nat) < 1" by (simp add: lora_layer_def)
  have n: "LoraRank plain_layer = None" by (simp add: plain_layer_def)
  have "outputs (forwarding ref_ops lora_layer (example_run FP32) True) SINGLE_INOUT_IDX
          = baseline_forward ref_ops (inputs (example_run FP32) SINGLE_INOUT_IDX)
              (op_add ref_ops (effective_weight ref_ops lora_layer (example_run FP32))
                 (lora_product ref_ops lora_layer (example_run FP32)))
              (bias_of lora_layer (example_run FP32))"
    using forwarding_lora_equiv [OF hl, of ref_ops "example_run FP32" True] r by blast
  also have "\<dots> = mat 2 2 FP32 [16, 28, 14, 26]" by code_simp
  finally have 1: "outputs (forwarding ref_ops lora_layer (example_run FP32) True) SINGLE_INOUT_IDX
      = mat 2 2 FP32 [16, 28, 14, 26]" .
  have "outputs (forwarding ref_ops lora_layer (example_run QINT8) True) SINGLE_INOUT_IDX
          = baseline_forward ref_ops (inputs (example_run QINT8) SINGLE_INOUT_IDX)
              (op_add ref_ops (effective_weight ref_ops lora_layer (example_run QINT8))
                 (lora_product ref_ops lora_layer (example_run QINT8)))
              (bias_of lora_layer (example_run QINT8))"
    using forwarding_lora_equiv [OF hl, of ref_ops "example_run QINT8" True] r by blast
  also have "\<dots> = mat 2 2 FP32 [16, 28, 14, 26]" by code_simp
  finally have 2: "outputs (forwarding ref_ops lora_layer (example_run QINT8) True) SINGLE_INOUT_IDX
      = mat 2 2 FP32 [16, 28, 14, 26]" .
  have "outputs (forwarding ref_ops plain_layer (example_run FP32) True) SINGLE_INOUT_IDX
          = baseline_forward ref_ops (inputs (example_run FP32) SINGLE_INOUT_IDX)
              (effective_weight ref_ops plain_layer (example_run FP32))
              (bias_of plain_layer (example_run FP32))"
    using forwarding_lora_equiv [OF hp, of ref_ops "example_run FP32" True] n by blast
  also have "\<dots> = mat 2 2 FP32 [14, 26, 12, 24]" by code_simp
  finally have 3: "outputs (forwarding ref_ops plain_layer (example_run FP32) True) SINGLE_INOUT_IDX
      = mat 2 2 FP32 [14, 26, 12, 24]" .
  have 4: "weights (forwarding ref_ops plain_layer (example_run FP32) True) = weights (example_run FP32)"
    using forwarding_lora_equiv [OF hp, of ref_ops "example_run FP32" True] n by blast
  from 1 2 3 4 show ?thesis by blast
qed

text \<open>
  The LoRA path is taken whenever the property holds a rank, whatever the rank:
  \<^verbatim>\<open>forwarding\<close> tests that the property is not empty, while \<^verbatim>\<open>finalize\<close> tests
  that the rank is not 0.
\<close>

lemma forwarding_lora_path_when_set:
  "LoraRank L = Some r \<Longrightarrow>
     getTensor (forwarding ops L c training) (lora_idx L loraW) = lora_product ops L c"
  by (simp add: forwarding_def forwarding_lora_Stored forwarding_lora_Temp Let_def ctx_defs)

subsection \<open>Incremental forward pass\<close>

text \<open>
  C4. For a nonzero \<^verbatim>\<open>from\<close>: when \<^verbatim>\<open>to - from\<close> (in 32-bit unsigned arithmetic) is
  not 1 the call fails with \<^verbatim>\<open>std::invalid_argument\<close>; when it is 1 the call does what
  the call with \<^verbatim>\<open>from = 0\<close> and \<^verbatim>\<open>to = 1\<close> does: it multiplies the view of height 1
  at offset 0 of the input by the weight into the view of height 1 at offset 0 of the
  output, and adds the bias there unless it is disabled.
\<close>

theorem incremental_forwarding_step:
  assumes "from \<noteq> 0"
  shows "(to - from \<noteq> 1 \<longrightarrow>
            incremental_forwarding ops L c from to training = Inl (invalid_argument msg_step_size))
       \<and> (to - from = 1 \<longrightarrow>
            incremental_forwarding ops L c from to training = incremental_forwarding ops L c 0 1 training
            \<and> incremental_forwarding ops L c from to training =
                Inr (let hd = (dim (outputs c SINGLE_INOUT_IDX))\<lparr>height := 1\<rparr>;
                         x = getSharedDataTensor (inputs c SINGLE_INOUT_IDX)
                               ((dim (inputs c SINGLE_INOUT_IDX))\<lparr>height := 1\<rparr>) 0 True;
                         h1 = put_shared (outputs c SINGLE_INOUT_IDX) hd 0
                                (op_dot ops x (getWeight c (weight_idx L weight)))
                     in setOutput c SINGLE_INOUT_IDX
                          (if bias_enabled L then
                             put_shared h1 hd 0
                               (op_add ops (getSharedDataTensor h1 hd 0 True)
                                  (getWeight c (weight_idx L bias)))
                           else h1)))"
  using assms
  by (auto simp: incremental_forwarding_def Let_def ctx_defs)

text \<open>
  On the example: \<^verbatim>\<open>from = 5\<close>, \<^verbatim>\<open>to = 7\<close> fails; \<^verbatim>\<open>from = 5\<close>, \<^verbatim>\<open>to = 6\<close>
  writes the first output row and leaves the second.
\<close>

theorem incremental_forwarding_step_witness:
  "incremental_forwarding ref_ops plain_layer (example_run FP32) 5 7 True
     = Inl (invalid_argument msg_step_size)
   \<and> incremental_forwarding ref_ops plain_layer (example_run FP32) 5 6 True
     = incremental_forwarding ref_ops plain_layer (example_run FP32) 0 1 True
   \<and> (\<exists>c'. incremental_forwarding ref_ops plain_layer (example_run FP32) 5 6 True = Inr c'
          \<and> outputs c' SINGLE_INOUT_IDX = mat 2 2 FP32 [14, 26, 0, 0])"
proof -
  have h: "(5 :: 32 word) \<noteq> 0" by simp
  have w2: "(7 :: 32 word) - 5 \<noteq> 1" and w1: "(6 :: 32 word) - 5 = 1" by simp_all
  have 1: "incremental_forwarding ref_ops plain_layer (example_run FP32) 5 7 True
     = Inl (invalid_argument msg_step_size)"
    using incremental_forwarding_step [OF h, of 7 ref_ops plain_layer "example_run FP32" True] w2
    by blast
  note t = incremental_forwarding_step [OF h, of 6 ref_ops plain_layer "example_run FP32" True]
  have 2: "incremental_forwarding ref_ops plain_layer (example_run FP32) 5 6 True
     = incremental_forwarding ref_ops plain_layer (example_run FP32) 0 1 True"
    using t w1 by blast
  define c' where "c' =
    (let hd = (dim (outputs (example_run FP32) SINGLE_INOUT_IDX))\<lparr>height := 1\<rparr>;
         x = getSharedDataTensor (inputs (example_run FP32) SINGLE_INOUT_IDX)
               ((dim (inputs (example_run FP32) SINGLE_INOUT_IDX))\<lparr>height := 1\<rparr>) 0 True;
         h1 = put_shared (outputs (example_run FP32) SINGLE_INOUT_IDX) hd 0
                (op_dot ref_ops x (getWeight (example_run FP32) (weight_idx plain_layer weight)))
     in setOutput (example_run FP32) SINGLE_INOUT_IDX
          (if bias_enabled plain_layer then
             put_shared h1 hd 0
               (op_add ref_ops (getSharedDataTensor h1 hd 0 True)
                  (getWeight (example_run FP32) (weight_idx plain_layer bias)))
           else h1))"
  have 3: "incremental_forwarding ref_ops plain_layer (example_run FP32) 5 6 True = Inr c'"
    unfolding c'_def using t w1 by blast
  have 4: "outputs c' SINGLE_INOUT_IDX = mat 2 2 FP32 [14, 26, 0, 0]"
    unfolding c'_def by code_simp
  from 1 2 3 4 show ?thesis by blast
qed

text \<open>
  The subtraction wraps: \<^verbatim>\<open>from = 4294967295\<close>, \<^verbatim>\<open>to = 0\<close> has step width 1 and is
  accepted.
\<close>

lemma incremental_forwarding_wraps:
  "\<exists>c'. incremental_forwarding ops L c 4294967295 0 training = Inr c'"
  by (simp add: incremental_forwarding_def Let_def)

subsection \<open>Backward pass\<close>

text \<open>
  C5, as the code has it. \<^verbatim>\<open>calcDerivative\<close> stores in the outgoing derivative what
  the primitive for the derivative with respect to the first operand of the product
  makes of the tensor stored at the weight index and of the incoming derivative, and
  changes nothing else. It reads no LoRA tensor: the result is the same in every
  context with the same stored weight and incoming derivative. After a forward pass
  with LoRA on a weight that is not quantized, that stored tensor is the LoRA-composed
  weight, the sum of the weight before the pass and the product of the LoRA factors
  (the note above \<^verbatim>\<open>calcDerivative\<close>: "the weight is already updated with the
  LoRA's"), and the derivative is taken against it. After a forward pass without LoRA,
  or on a quantized weight, the derivative is taken against the stored weight as it
  was before the pass.
\<close>

theorem calcDerivative_weight_used:
  "calcDerivative ops L c =
     setOutgoingDerivative c SINGLE_INOUT_IDX
       (op_dot_deriv_wrt_1 ops (getWeight c (weight_idx L weight))
          (incoming_derivatives c SINGLE_INOUT_IDX))
   \<and> (\<forall>c2 L2. getWeight c2 (weight_idx L2 weight) = getWeight c (weight_idx L weight)
          \<and> incoming_derivatives c2 SINGLE_INOUT_IDX = incoming_derivatives c SINGLE_INOUT_IDX
        \<longrightarrow> outgoing_derivatives (calcDerivative ops L2 c2) SINGLE_INOUT_IDX
              = outgoing_derivatives (calcDerivative ops L c) SINGLE_INOUT_IDX)
   \<and> (LoraRank L \<noteq> None \<and> \<not> is_quantized (getWeight c (weight_idx L weight)) \<longrightarrow>
        outgoing_derivatives (calcDerivative ops L (forwarding ops L c training)) SINGLE_INOUT_IDX
          = op_dot_deriv_wrt_1 ops
              (op_add ops (getWeight c (weight_idx L weight)) (lora_product ops L c))
              (incoming_derivatives c SINGLE_INOUT_IDX))
   \<and> (LoraRank L = None \<or> is_quantized (getWeight c (weight_idx L weight)) \<longrightarrow>
        outgoing_derivatives (calcDerivative ops L (forwarding ops L c training)) SINGLE_INOUT_IDX
          = op_dot_deriv_wrt_1 ops (getWeight c (weight_idx L weight))
              (incoming_derivatives c SINGLE_INOUT_IDX))"
proof (intro conjI)
  show "calcDerivative ops L c =
     setOutgoingDerivative c SINGLE_INOUT_IDX
       (op_dot_deriv_wrt_1 ops (getWeight c (weight_idx L weight))
          (incoming_derivatives c SINGLE_INOUT_IDX))"
    by (simp add: calcDerivative_def Let_def)
  show "\<forall>c2 L2. getWeight c2 (weight_idx L2 weight) = getWeight c (weight_idx L weight)
          \<and> incoming_derivatives c2 SINGLE_INOUT_IDX = incoming_derivatives c SINGLE_INOUT_IDX
        \<longrightarrow> outgoing_derivatives (calcDerivative ops L2 c2) SINGLE_INOUT_IDX
              = outgoing_derivatives (calcDerivative ops L c) SINGLE_INOUT_IDX"
    by (simp add: calcDerivative_def Let_def ctx_defs)
  show "LoraRank L \<noteq> None \<and> \<not> is_quantized (getWeight c (weight_idx L weight)) \<longrightarrow>
        outgoing_derivatives (calcDerivative ops L (forwarding ops L c training)) SINGLE_INOUT_IDX
          = op_dot_deriv_wrt_1 ops
              (op_add ops (getWeight c (weight_idx L weight)) (lora_product ops L c))
              (incoming_derivatives c SINGLE_INOUT_IDX)"
    by (simp add: calcDerivative_def forwarding_def forwarding_lora_Stored Let_def is_quantized_def
      ctx_defs)
  show "LoraRank L = None \<or> is_quantized (getWeight c (weight_idx L weight)) \<longrightarrow>
        outgoing_derivatives (calcDerivative ops L (forwarding ops L c training)) SINGLE_INOUT_IDX
          = op_dot_deriv_wrt_1 ops (getWeight c (weight_idx L weight))
              (incoming_derivatives c SINGLE_INOUT_IDX)"
    by (auto simp: calcDerivative_def forwarding_def forwarding_lora_Temp Let_def is_quantized_def
      ctx_defs)
qed

text \<open>
  On the FP32 example with LoRA, the derivative after the forward pass is
  \<open>[[5, 9], [2, 4]]\<close>, taken against the composed weight \<open>[[2, 3], [4, 5]]\<close>; against
  the weight \<open>[[1, 2], [3, 4]]\<close> of before the pass it would be \<open>[[3, 7], [1, 3]]\<close>.
\<close>

theorem calcDerivative_base_weight_counterexample:
  "LoraRank lora_layer = Some 1
   \<and> outgoing_derivatives
        (calcDerivative ref_ops lora_layer (forwarding ref_ops lora_layer (example_run FP32) True))
        SINGLE_INOUT_IDX = mat 2 2 FP32 [5, 9, 2, 4]
   \<and> op_dot_deriv_wrt_1 ref_ops (getWeight (example_run FP32) (weight_idx lora_layer weight))
        (incoming_derivatives (example_run FP32) SINGLE_INOUT_IDX) = mat 2 2 FP32 [3, 7, 1, 3]
   \<and> op_dot_deriv_wrt_1 ref_ops
        (op_add ref_ops (getWeight (example_run FP32) (weight_idx lora_layer weight))
           (lora_product ref_ops lora_layer (example_run FP32)))
        (incoming_derivatives (example_run FP32) SINGLE_INOUT_IDX) = mat 2 2 FP32 [5, 9, 2, 4]
   \<and> outgoing_derivatives
        (calcDerivative ref_ops lora_layer (forwarding ref_ops lora_layer (example_run FP32) True))
        SINGLE_INOUT_IDX
       \<noteq> op_dot_deriv_wrt_1 ref_ops (getWeight (example_run FP32) (weight_idx lora_layer weight))
            (incoming_derivatives (example_run FP32) SINGLE_INOUT_IDX)"
  by code_simp

text \<open>
  On the examples: the derivative against the stored weight, with the LoRA tensors of
  the example and with other ones; and the derivative after a forward pass with LoRA,
  with LoRA on the quantized weight, and without LoRA.
\<close>

theorem calcDerivative_weight_used_witness:
  "outgoing_derivatives (calcDerivative ref_ops lora_layer (example_run FP32)) SINGLE_INOUT_IDX
     = mat 2 2 FP32 [3, 7, 1, 3]
   \<and> outgoing_derivatives (calcDerivative ref_ops lora_layer example_run_other_lora) SINGLE_INOUT_IDX
     = mat 2 2 FP32 [3, 7, 1, 3]
   \<and> outgoing_derivatives
        (calcDerivative ref_ops lora_layer (forwarding ref_ops lora_layer (example_run FP32) True))
        SINGLE_INOUT_IDX = mat 2 2 FP32 [5, 9, 2, 4]
   \<and> outgoing_derivatives
        (calcDerivative ref_ops lora_layer (forwarding ref_ops lora_layer (example_run QINT8) True))
        SINGLE_INOUT_IDX = mat 2 2 FP32 [3, 7, 1, 3]
   \<and> outgoing_derivatives
        (calcDerivative ref_ops plain_layer (forwarding ref_ops plain_layer (example_run FP32) True))
        SINGLE_INOUT_IDX = mat 2 2 FP32 [3, 7, 1, 3]"
proof -
  note t = calcDerivative_weight_used [of ref_ops lora_layer "example_run FP32" True]
  have "outgoing_derivatives (calcDerivative ref_ops lora_layer (example_run FP32)) SINGLE_INOUT_IDX
          = op_dot_deriv_wrt_1 ref_ops (getWeight (example_run FP32) (weight_idx lora_layer weight))
              (incoming_derivatives (example_run FP32) SINGLE_INOUT_IDX)"
    using t by (simp add: setOutgoingDerivative_def)
  also have "\<dots> = mat 2 2 FP32 [3, 7, 1, 3]" by code_simp
  finally have 1: "outgoing_derivatives (calcDerivative ref_ops lora_layer (example_run FP32))
      SINGLE_INOUT_IDX = mat 2 2 FP32 [3, 7, 1, 3]" .
  have same: "getWeight example_run_other_lora (weight_idx lora_layer weight)
                = getWeight (example_run FP32) (weight_idx lora_layer weight)
              \<and> incoming_derivatives example_run_other_lora SINGLE_INOUT_IDX
                = incoming_derivatives (example_run FP32) SINGLE_INOUT_IDX"
    by code_simp
  have "outgoing_derivatives (calcDerivative ref_ops lora_layer example_run_other_lora) SINGLE_INOUT_IDX
          = outgoing_derivatives (calcDerivative ref_ops lora_layer (example_run FP32)) SINGLE_INOUT_IDX"
    using t same by blast
  with 1 have 2: "outgoing_derivatives (calcDerivative ref_ops lora_layer example_run_other_lora)
      SINGLE_INOUT_IDX = mat 2 2 FP32 [3, 7, 1, 3]" by simp
  have l: "LoraRank lora_layer \<noteq> None" and n: "LoraRank plain_layer = None"
    by (simp_all add: lora_layer_def plain_layer_def)
  have nq: "\<not> is_quantized (getWeight (example_run FP32) (weight_idx lora_layer weight))"
    and q: "is_quantized (getWeight (example_run QINT8) (weight_idx lora_layer weight))"
    by code_simp+
  have "outgoing_derivatives
        (calcDerivative ref_ops lora_layer (forwarding ref_ops lora_layer (example_run FP32) True))
        SINGLE_INOUT_IDX
      = op_dot_deriv_wrt_1 ref_ops
          (op_add ref_ops (getWeight (example_run FP32) (weight_idx lora_layer weight))
             (lora_product ref_ops lora_layer (example_run FP32)))
          (incoming_derivatives (example_run FP32) SINGLE_INOUT_IDX)"
    using t l nq by blast
  also have "\<dots> = mat 2 2 FP32 [5, 9, 2, 4]" by code_simp
  finally have 3: "outgoing_derivatives
        (calcDerivative ref_ops lora_layer (forwarding ref_ops lora_layer (example_run FP32) True))
        SINGLE_INOUT_IDX = mat 2 2 FP32 [5, 9, 2, 4]" .
  have "outgoing_derivatives
        (calcDerivative ref_ops lora_layer (forwarding ref_ops lora_layer (example_run QINT8) True))
        SINGLE_INOUT_IDX
      = op_dot_deriv_wrt_1 ref_ops (getWeight (example_run QINT8) (weight_idx lora_layer weight))
          (incoming_derivatives (example_run QINT8) SINGLE_INOUT_IDX)"
    using calcDerivative_weight_used [of ref_ops lora_layer "example_run QINT8" True] q by blast
  also have "\<dots> = mat 2 2 FP32 [3, 7, 1, 3]" by code_simp
  finally have 4: "outgoing_derivatives
        (calcDerivative ref_ops lora_layer (forwarding ref_ops lora_layer (example_run QINT8) True))
        SINGLE_INOUT_IDX = mat 2 2 FP32 [3, 7, 1, 3]" .
  have "outgoing_derivatives
        (calcDerivative ref_ops plain_layer (forwarding ref_ops plain_layer (example_run FP32) True))
        SINGLE_INOUT_IDX
      = op_dot_deriv_wrt_1 ref_ops (getWeight (example_run FP32) (weight_idx plain_layer weight))
          (incoming_derivatives (example_run FP32) SINGLE_INOUT_IDX)"
    using calcDerivative_weight_used [of ref_ops plain_layer "example_run FP32" True] n by blast
  also have "\<dots> = mat 2 2 FP32 [3, 7, 1, 3]" by code_simp
  finally have 5: "outgoing_derivatives
        (calcDerivative ref_ops plain_layer (forwarding ref_ops plain_layer (example_run FP32) True))
        SINGLE_INOUT_IDX = mat 2 2 FP32 [3, 7, 1, 3]" .
  from 1 2 3 4 5 show ?thesis by blast
qed

text \<open>
  C2, for the baseline branch (empty LoRA rank property), with the bias index different
  from the weight index when the bias is enabled. Whatever the gradients hold before, one
  call under a set first-access flag (\<open>f1\<close>) leaves the single-pass results in them: the
  derivative with respect to the second operand in the weight gradient, the sum over the
  axes 0, 1, 2 of the incoming derivative in the bias gradient. A second call under a
  cleared flag (\<open>f2\<close>) leaves in each the sum of two single-pass results, computed
  independently from any two gradient states \<open>ca\<close> and \<open>cb\<close> with the same input and
  incoming derivative.
\<close>

theorem calcGradient_accumulates:
  assumes "LoraRank L = None"
    and "f1 (weight_idx L weight)" and "\<not> f2 (weight_idx L weight)"
    and "bias_enabled L \<longrightarrow>
           weight_idx L bias \<noteq> weight_idx L weight \<and> f1 (weight_idx L bias) \<and> \<not> f2 (weight_idx L bias)"
    and "inputs ca SINGLE_INOUT_IDX = inputs c SINGLE_INOUT_IDX"
    and "incoming_derivatives ca SINGLE_INOUT_IDX = incoming_derivatives c SINGLE_INOUT_IDX"
    and "inputs cb SINGLE_INOUT_IDX = inputs c SINGLE_INOUT_IDX"
    and "incoming_derivatives cb SINGLE_INOUT_IDX = incoming_derivatives c SINGLE_INOUT_IDX"
  shows "getWeightGrad (calcGradient ops L (c\<lparr>gradient_first_access := f1\<rparr>)) (weight_idx L weight)
           = op_dot_deriv_wrt_2 ops (inputs c SINGLE_INOUT_IDX) (incoming_derivatives c SINGLE_INOUT_IDX)
       \<and> (bias_enabled L \<longrightarrow>
            getWeightGrad (calcGradient ops L (c\<lparr>gradient_first_access := f1\<rparr>)) (weight_idx L bias)
              = op_sum ops [0, 1, 2] (incoming_derivatives c SINGLE_INOUT_IDX))
       \<and> getWeightGrad
            (calcGradient ops L
               ((calcGradient ops L (c\<lparr>gradient_first_access := f1\<rparr>))\<lparr>gradient_first_access := f2\<rparr>))
            (weight_idx L weight)
           = op_add ops
               (getWeightGrad (calcGradient ops L (ca\<lparr>gradient_first_access := f1\<rparr>)) (weight_idx L weight))
               (getWeightGrad (calcGradient ops L (cb\<lparr>gradient_first_access := f1\<rparr>)) (weight_idx L weight))
       \<and> (bias_enabled L \<longrightarrow>
            getWeightGrad
              (calcGradient ops L
                 ((calcGradient ops L (c\<lparr>gradient_first_access := f1\<rparr>))\<lparr>gradient_first_access := f2\<rparr>))
              (weight_idx L bias)
             = op_add ops
                 (getWeightGrad (calcGradient ops L (ca\<lparr>gradient_first_access := f1\<rparr>)) (weight_idx L bias))
                 (getWeightGrad (calcGradient ops L (cb\<lparr>gradient_first_access := f1\<rparr>)) (weight_idx L bias)))"
  using assms
  by (cases "bias_enabled L") (simp_all add: calcGradient_def dot_deriv_wrt_2_def Let_def ctx_defs)

text \<open>
  On the example, from stored gradients \<open>[[7, 7], [7, 7]]\<close> and \<open>[9, 9]\<close>: one call
  leaves \<open>[[3, 1], [1, 1]]\<close> and \<open>[2, 1]\<close>, two calls leave twice that.
\<close>

theorem calcGradient_accumulates_witness:
  "getWeightGrad (calcGradient ref_ops plain_layer ((example_run FP32)\<lparr>gradient_first_access := \<lambda>_. True\<rparr>))
      (weight_idx plain_layer weight) = mat 2 2 FP32 [3, 1, 1, 1]
   \<and> getWeightGrad (calcGradient ref_ops plain_layer ((example_run FP32)\<lparr>gradient_first_access := \<lambda>_. True\<rparr>))
      (weight_idx plain_layer bias) = mat 1 2 FP32 [2, 1]
   \<and> getWeightGrad
        (calcGradient ref_ops plain_layer
           ((calcGradient ref_ops plain_layer ((example_run FP32)\<lparr>gradient_first_access := \<lambda>_. True\<rparr>))
              \<lparr>gradient_first_access := \<lambda>_. False\<rparr>))
        (weight_idx plain_layer weight) = mat 2 2 FP32 [6, 2, 2, 2]
   \<and> getWeightGrad
        (calcGradient ref_ops plain_layer
           ((calcGradient ref_ops plain_layer ((example_run FP32)\<lparr>gradient_first_access := \<lambda>_. True\<rparr>))
              \<lparr>gradient_first_access := \<lambda>_. False\<rparr>))
        (weight_idx plain_layer bias) = mat 1 2 FP32 [4, 2]"
proof -
  have n: "LoraRank plain_layer = None" and be: "bias_enabled plain_layer"
    by (simp_all add: plain_layer_def bias_enabled_def)
  have d: "bias_enabled plain_layer \<longrightarrow>
             weight_idx plain_layer bias \<noteq> weight_idx plain_layer weight
             \<and> (\<lambda>_. True) (weight_idx plain_layer bias) \<and> \<not> (\<lambda>_. False) (weight_idx plain_layer bias)"
    by (simp add: plain_layer_def)
  have same: "inputs example_run_other_lora SINGLE_INOUT_IDX = inputs (example_run FP32) SINGLE_INOUT_IDX"
    "incoming_derivatives example_run_other_lora SINGLE_INOUT_IDX
       = incoming_derivatives (example_run FP32) SINGLE_INOUT_IDX"
    by code_simp+
  note t = calcGradient_accumulates [of plain_layer "\<lambda>_. True" "\<lambda>_. False"
      "example_run FP32" "example_run FP32" example_run_other_lora ref_ops,
      OF n _ _ d refl refl same]
  have 1: "getWeightGrad (calcGradient ref_ops plain_layer ((example_run FP32)\<lparr>gradient_first_access := \<lambda>_. True\<rparr>))
      (weight_idx plain_layer weight) = mat 2 2 FP32 [3, 1, 1, 1]" (is "?a = _")
  proof -
    have "?a = op_dot_deriv_wrt_2 ref_ops (inputs (example_run FP32) SINGLE_INOUT_IDX)
                 (incoming_derivatives (example_run FP32) SINGLE_INOUT_IDX)"
      using t by blast
    also have "\<dots> = mat 2 2 FP32 [3, 1, 1, 1]" by code_simp
    finally show ?thesis .
  qed
  have 2: "getWeightGrad (calcGradient ref_ops plain_layer ((example_run FP32)\<lparr>gradient_first_access := \<lambda>_. True\<rparr>))
      (weight_idx plain_layer bias) = mat 1 2 FP32 [2, 1]" (is "?b = _")
  proof -
    have "?b = op_sum ref_ops [0, 1, 2] (incoming_derivatives (example_run FP32) SINGLE_INOUT_IDX)"
      using t be by blast
    also have "\<dots> = mat 1 2 FP32 [2, 1]" by code_simp
    finally show ?thesis .
  qed
  have 3: "getWeightGrad
        (calcGradient ref_ops plain_layer
           ((calcGradient ref_ops plain_layer ((example_run FP32)\<lparr>gradient_first_access := \<lambda>_. True\<rparr>))
              \<lparr>gradient_first_access := \<lambda>_. False\<rparr>))
        (weight_idx plain_layer weight) = mat 2 2 FP32 [6, 2, 2, 2]" (is "?c = _")
  proof -
    have "?c = op_add ref_ops
               (getWeightGrad (calcGradient ref_ops plain_layer ((example_run FP32)\<lparr>gradient_first_access := \<lambda>_. True\<rparr>)) (weight_idx plain_layer weight))
               (getWeightGrad (calcGradient ref_ops plain_layer (example_run_other_lora\<lparr>gradient_first_access := \<lambda>_. True\<rparr>)) (weight_idx plain_layer weight))"
      using t by blast
    also have "\<dots> = mat 2 2 FP32 [6, 2, 2, 2]" by code_simp
    finally show ?thesis .
  qed
  have 4: "getWeightGrad
        (calcGradient ref_ops plain_layer
           ((calcGradient ref_ops plain_layer ((example_run FP32)\<lparr>gradient_first_access := \<lambda>_. True\<rparr>))
              \<lparr>gradient_first_access := \<lambda>_. False\<rparr>))
        (weight_idx plain_layer bias) = mat 1 2 FP32 [4, 2]" (is "?d = _")
  proof -
    have "?d = op_add ref_ops
               (getWeightGrad (calcGradient ref_ops plain_layer ((example_run FP32)\<lparr>gradient_first_access := \<lambda>_. True\<rparr>)) (weight_idx plain_layer bias))
               (getWeightGrad (calcGradient ref_ops plain_layer (example_run_other_lora\<lparr>gradient_first_access := \<lambda>_. True\<rparr>)) (weight_idx plain_layer bias))"
      using t be by blast
    also have "\<dots> = mat 1 2 FP32 [4, 2]" by code_simp
    finally show ?thesis .
  qed
  from 1 2 3 4 show ?thesis by blast
qed

text \<open>
  C10. With a LoRA rank property set and the indices of the weight and of the bias
  different from the indices of the two LoRA factors (as \<^verbatim>\<open>finalize\<close> assigns them),
  \<^verbatim>\<open>calcGradient\<close> changes the context in three places only: the gradient of the
  scratch tensor and the gradients of \<^verbatim>\<open>loraB\<close> and \<^verbatim>\<open>loraA\<close>. The gradients of the
  weight and of the bias keep their values, bias enabled or not, and they are not read:
  the call commutes with any store into them.
\<close>

theorem calcGradient_lora_frame:
  assumes "LoraRank L \<noteq> None"
    and "weight_idx L weight \<noteq> lora_idx L loraA" and "weight_idx L weight \<noteq> lora_idx L loraB"
    and "weight_idx L bias \<noteq> lora_idx L loraA" and "weight_idx L bias \<noteq> lora_idx L loraB"
  shows "getWeightGrad (calcGradient ops L c) (weight_idx L weight) = getWeightGrad c (weight_idx L weight)
       \<and> getWeightGrad (calcGradient ops L c) (weight_idx L bias) = getWeightGrad c (weight_idx L bias)
       \<and> (\<exists>ga gb gw. calcGradient ops L c =
             setWeightGrad (setWeightGrad (setTensorGrad c (lora_idx L loraW) gw) (lora_idx L loraB) gb)
               (lora_idx L loraA) ga)
       \<and> (\<forall>g1 g2. calcGradient ops L
                      (setWeightGrad (setWeightGrad c (weight_idx L weight) g1) (weight_idx L bias) g2)
                  = setWeightGrad (setWeightGrad (calcGradient ops L c) (weight_idx L weight) g1)
                      (weight_idx L bias) g2)"
proof -
  from assms(1) obtain r where r: "LoraRank L = Some r" by auto
  show ?thesis
  proof (intro conjI)
    show "getWeightGrad (calcGradient ops L c) (weight_idx L weight) = getWeightGrad c (weight_idx L weight)"
      using assms(2-) r by (simp add: calcGradient_def Let_def ctx_defs)
    show "getWeightGrad (calcGradient ops L c) (weight_idx L bias) = getWeightGrad c (weight_idx L bias)"
      using assms(2-) r by (simp add: calcGradient_def Let_def ctx_defs)
    show "\<exists>ga gb gw. calcGradient ops L c =
             setWeightGrad (setWeightGrad (setTensorGrad c (lora_idx L loraW) gw) (lora_idx L loraB) gb)
               (lora_idx L loraA) ga"
      using r by (simp add: calcGradient_def Let_def) blast
    show "\<forall>g1 g2. calcGradient ops L
                      (setWeightGrad (setWeightGrad c (weight_idx L weight) g1) (weight_idx L bias) g2)
                  = setWeightGrad (setWeightGrad (calcGradient ops L c) (weight_idx L weight) g1)
                      (weight_idx L bias) g2"
      using assms(2-) r by (auto simp: calcGradient_def Let_def ctx_defs fun_upd_twist intro!: ext)
  qed
qed

text \<open>
  On the example the stored gradients \<open>[[7, 7], [7, 7]]\<close> of the weight and \<open>[9, 9]\<close> of
  the bias are still there after the call, and the gradient of \<^verbatim>\<open>loraA\<close> is written.
\<close>

theorem calcGradient_lora_frame_witness:
  "getWeightGrad (calcGradient ref_ops lora_layer (example_run FP32)) (weight_idx lora_layer weight)
     = mat 2 2 FP32 [7, 7, 7, 7]
   \<and> getWeightGrad (calcGradient ref_ops lora_layer (example_run FP32)) (weight_idx lora_layer bias)
     = mat 1 2 FP32 [9, 9]
   \<and> getWeightGrad (calcGradient ref_ops lora_layer (example_run FP32)) (lora_idx lora_layer loraA)
     = mat 2 1 FP32 [4, 2]"
proof -
  have h: "LoraRank lora_layer \<noteq> None"
    "weight_idx lora_layer weight \<noteq> lora_idx lora_layer loraA"
    "weight_idx lora_layer weight \<noteq> lora_idx lora_layer loraB"
    "weight_idx lora_layer bias \<noteq> lora_idx lora_layer loraA"
    "weight_idx lora_layer bias \<noteq> lora_idx lora_layer loraB"
    by (simp_all add: lora_layer_def)
  note t = calcGradient_lora_frame [OF h, of ref_ops "example_run FP32"]
  have "getWeightGrad (calcGradient ref_ops lora_layer (example_run FP32)) (weight_idx lora_layer weight)
          = getWeightGrad (example_run FP32) (weight_idx lora_layer weight)"
    using t by blast
  also have "\<dots> = mat 2 2 FP32 [7, 7, 7, 7]" by code_simp
  finally have 1: "getWeightGrad (calcGradient ref_ops lora_layer (example_run FP32))
      (weight_idx lora_layer weight) = mat 2 2 FP32 [7, 7, 7, 7]" .
  have "getWeightGrad (calcGradient ref_ops lora_layer (example_run FP32)) (weight_idx lora_layer bias)
          = getWeightGrad (example_run FP32) (weight_idx lora_layer bias)"
    using t by blast
  also have "\<dots> = mat 1 2 FP32 [9, 9]" by code_simp
  finally have 2: "getWeightGrad (calcGradient ref_ops lora_layer (example_run FP32))
      (weight_idx lora_layer bias) = mat 1 2 FP32 [9, 9]" .
  have 3: "getWeightGrad (calcGradient ref_ops lora_layer (example_run FP32)) (lora_idx lora_layer loraA)
     = mat 2 1 FP32 [4, 2]"
    by code_simp
  from 1 2 3 show ?thesis by blast
qed

text \<open>
  The indices \<^verbatim>\<open>finalize\<close> assigns to a constructed layer on a fresh context satisfy
  the index conditions above.
\<close>

lemma finalize_indices_distinct:
  assumes "finalize (FullyConnectedLayer_new u (Some r) db wi bi g) c0 = Inr (L', c')"
    and "weights_spec c0 = []" and "r \<noteq> 0"
  shows "weight_idx L' weight \<noteq> lora_idx L' loraA \<and> weight_idx L' weight \<noteq> lora_idx L' loraB
       \<and> weight_idx L' bias \<noteq> lora_idx L' loraA \<and> weight_idx L' bias \<noteq> lora_idx L' loraB
       \<and> weight_idx L' bias \<noteq> weight_idx L' weight \<and> LoraRank L' \<noteq> None"
  using assms
  by (auto simp: finalize_def FullyConnectedLayer_new_def Let_def setEffDimFlagInputDimension_def
      setDynDimFlagInputDimension_def requestWeight_def requestTensor_def
      split: if_splits)


end
